theory Spec2Isabelle
  imports Main "HOL-Library.Sublist"
begin

section \<open>Python values\<close>

subsection \<open>Strings\<close>

text \<open>
  A Python \<^verbatim>\<open>str\<close> is kept as the bytes of its UTF-8 encoding. A \<^verbatim>\<open>str\<close> may hold a surrogate
  code point (\<^verbatim>\<open>json.loads\<close> makes one of the escape \<^verbatim>\<open>\ud83d\<close>); it is kept as the three bytes
  \<^verbatim>\<open>ED A0..BF 80..BF\<close> that the error handler \<^verbatim>\<open>surrogatepass\<close> writes for it. No other
  character has the byte \<^verbatim>\<open>ED\<close> followed by a byte from \<^verbatim>\<open>A0\<close> to \<^verbatim>\<open>BF\<close>, so
  \<^verbatim>\<open>s.encode("utf-8")\<close> raises \<^verbatim>\<open>UnicodeEncodeError\<close> exactly for the strings in which that
  pair of bytes occurs.
\<close>

fun has_surrogate :: "string \<Rightarrow> bool" where
  "has_surrogate (c # d # cs) =
     ((c = CHR 0xED \<and> 160 \<le> (of_char d :: nat) \<and> (of_char d :: nat) \<le> 191) \<or>
      has_surrogate (d # cs))"
| "has_surrogate cs = False"

definition utf8_encodable :: "string \<Rightarrow> bool" where
  "utf8_encodable s = (\<not> has_surrogate s)"

subsection \<open>Values that are decoded and values that are encoded\<close>

text \<open>
  What \<^verbatim>\<open>json.loads\<close> returns: \<^verbatim>\<open>None\<close>, a boolean, a number (an \<^verbatim>\<open>int\<close> or a \<^verbatim>\<open>float\<close>), a
  string, a list or a dict with string keys (kept as the list of its items). The program
  does two things with such a value: it formats it with \<^verbatim>\<open>str()\<close> in an f-string and it
  tests it for truth. So a number is kept as the text \<^verbatim>\<open>str()\<close> gives for it and its truth
  value, and a list and a dict carry the text \<^verbatim>\<open>str()\<close> gives for them.
\<close>

datatype py_value =
    PNone
  | PBool bool
  | PNum string bool
  | PStr string
  | PList "py_value list" string
  | PDict "(string \<times> py_value) list" string

text \<open>What the program hands to \<^verbatim>\<open>json.dumps\<close>: booleans, strings, lists and dicts.\<close>

datatype json =
    JBool bool
  | JStr string
  | JArr "json list"
  | JObj "(string \<times> json) list"

text \<open>
  The exceptions the program meets, all subclasses of \<^verbatim>\<open>Exception\<close>: the interpreter's
  own, \<^verbatim>\<open>requests.RequestException\<close> (the class or a subclass of it), and whatever else a
  library call raises.
\<close>

datatype py_exception =
    TypeError
  | AttributeError
  | ValueError
  | RecursionError
  | JSONDecodeError
  | UnicodeEncodeError
  | RequestException
  | OtherException string

text \<open>\<^verbatim>\<open>except requests.RequestException\<close> catches the class and its subclasses only.\<close>

fun is_RequestException :: "py_exception \<Rightarrow> bool" where
  "is_RequestException RequestException = True"
| "is_RequestException x = False"

text \<open>
  A string that is meant to hold JSON text, as \<^verbatim>\<open>tool_call.function.arguments\<close> is, kept as
  what \<^verbatim>\<open>json.loads\<close> does with it: the call raises (\<^verbatim>\<open>JSONDecodeError\<close> for text that is
  not JSON, \<^verbatim>\<open>ValueError\<close> for an integer of more digits than the interpreter converts,
  \<^verbatim>\<open>RecursionError\<close> for nesting deeper than it follows), or it returns a value.
\<close>

datatype json_text = Fails py_exception | Decodes py_value

fun json_loads :: "json_text \<Rightarrow> py_exception + py_value" where
  "json_loads (Fails x) = Inl x"
| "json_loads (Decodes v) = Inr v"

text \<open>
  The text \<^verbatim>\<open>json.dumps(result)\<close> that becomes the content of a tool result. For
  \<^verbatim>\<open>result = {"error": str(e)}\<close> the exception is kept in place of the interpreter's
  message for it.
\<close>

datatype payload = Dumps json | Dumps_error py_exception

subsection \<open>Truth values and \<^verbatim>\<open>str()\<close>\<close>

text \<open>An \<^verbatim>\<open>Optional[str]\<close> is false when it is \<^verbatim>\<open>None\<close> or empty.\<close>

fun truthy :: "string option \<Rightarrow> bool" where
  "truthy None = False"
| "truthy (Some s) = (s \<noteq> [])"

fun the_str :: "string option \<Rightarrow> string" where
  "the_str None = []"
| "the_str (Some s) = s"

definition py_or :: "string option \<Rightarrow> string option \<Rightarrow> string option" where
  "py_or a b = (if truthy a then a else b)"

fun py_bool :: "py_value \<Rightarrow> bool" where
  "py_bool PNone = False"
| "py_bool (PBool b) = b"
| "py_bool (PNum t b) = b"
| "py_bool (PStr s) = (s \<noteq> [])"
| "py_bool (PList xs t) = (xs \<noteq> [])"
| "py_bool (PDict kvs t) = (kvs \<noteq> [])"

text \<open>What an f-string puts in place of \<^verbatim>\<open>{v}\<close>: \<^verbatim>\<open>str(v)\<close>.\<close>

fun py_str :: "py_value \<Rightarrow> string" where
  "py_str PNone = ''None''"
| "py_str (PBool b) = (if b then ''True'' else ''False'')"
| "py_str (PNum t b) = t"
| "py_str (PStr s) = s"
| "py_str (PList xs t) = t"
| "py_str (PDict kvs t) = t"

section \<open>Configuration and the outside world\<close>

text \<open>\<^verbatim>\<open>config/settings.py\<close>: the settings read from the environment variables.\<close>

record config =
  openai_model :: string
  pushover_token :: "string option"
  pushover_user :: "string option"
  agent_name :: string

text \<open>
  The call \<^verbatim>\<open>requests.post(url, data=data, timeout=10)\<close> and what comes of it once the form
  is encoded: the call raises (a \<^verbatim>\<open>requests.RequestException\<close> when the connection fails or
  the time runs out; the library lets a few other exceptions through), or it returns a
  response with a status code.
\<close>

record post_request =
  url :: string
  data :: "(string \<times> string) list"
  timeout :: nat

datatype post_outcome = Post_raises py_exception | Post_response nat

text \<open>A tool call of the model endpoint, the assistant message that carries it, a choice.\<close>

record tool_call =
  call_id :: string
  function_name :: string
  function_arguments :: json_text

record assistant_message =
  content :: "string option"
  tool_calls :: "tool_call list option"

record choice =
  finish_reason :: string
  message :: assistant_message

text \<open>
  A conversation turn in the message list: a dict with role and content, the assistant's
  message object appended as it came, or the dict of a tool result.
\<close>

datatype turn =
    Role_content string string
  | Completion_message assistant_message
  | Tool_result payload string

record request =
  req_model :: string
  req_messages :: "turn list"
  req_tools :: json

datatype api_outcome = Create_raises py_exception | Create_returns "choice list"

text \<open>
  The environment of a run: the configuration, the model endpoint and the notification
  endpoint. Each endpoint answers its k-th request (counted from 0) as it likes.
\<close>

record env =
  config :: config
  create :: "nat \<Rightarrow> request \<Rightarrow> api_outcome"
  post :: "nat \<Rightarrow> post_request \<Rightarrow> post_outcome"

text \<open>
  The state a run changes: the requests made of the model endpoint, the requests that
  \<^verbatim>\<open>requests.post\<close> encoded and went on to send to the notification endpoint, and the list
  objects of the heap (an address holds a list of turns; addresses below \<open>next_free\<close> are
  in use). What the program prints is not part of the state: standard output is taken to
  accept every line.
\<close>

record world =
  requests :: "request list"
  posts :: "post_request list"
  store :: "nat \<Rightarrow> turn list"
  next_free :: nat

section \<open>Notification sender (\<^verbatim>\<open>notifications/pushover_client.py\<close>)\<close>

record PushoverClient =
  token :: "string option"
  user :: "string option"
  api_url :: string

definition PushoverClient_init :: "string option \<Rightarrow> string option \<Rightarrow> config \<Rightarrow> PushoverClient" where
  "PushoverClient_init tok usr cfg =
     \<lparr>token = py_or tok (pushover_token cfg),
      user = py_or usr (pushover_user cfg),
      api_url = ''https://api.pushover.net/1/messages.json''\<rparr>"

text \<open>The global instance \<^verbatim>\<open>notification_client = PushoverClient()\<close>.\<close>

definition notification_client :: "env \<Rightarrow> PushoverClient" where
  "notification_client e = PushoverClient_init None None (config e)"

text \<open>
  \<^verbatim>\<open>response.raise_for_status()\<close> raises \<^verbatim>\<open>HTTPError\<close>, a \<^verbatim>\<open>RequestException\<close>, for a
  4xx or 5xx status and returns for any other.
\<close>

definition raise_for_status :: "nat \<Rightarrow> bool" where
  "raise_for_status status = (400 \<le> status \<and> status < 600)"

text \<open>The dict \<open>data\<close>, and the arguments of \<^verbatim>\<open>requests.post\<close>.\<close>

definition form_data :: "PushoverClient \<Rightarrow> string \<Rightarrow> string option \<Rightarrow> (string \<times> string) list" where
  "form_data c msg title =
     (let d = [(''token'', the_str (token c)), (''user'', the_str (user c)), (''message'', msg)]
      in if truthy title then d @ [(''title'', the_str title)] else d)"

definition notification_request :: "PushoverClient \<Rightarrow> string \<Rightarrow> string option \<Rightarrow> post_request" where
  "notification_request c msg title = \<lparr>url = api_url c, data = form_data c msg title, timeout = 10\<rparr>"

text \<open>
  \<^verbatim>\<open>requests.post\<close> first encodes every value of the form as UTF-8; a value that cannot be
  encoded makes it raise \<^verbatim>\<open>UnicodeEncodeError\<close> before anything is sent. That exception, like
  any other that is not a \<^verbatim>\<open>RequestException\<close>, passes the \<^verbatim>\<open>except\<close> clause and leaves the
  function.
\<close>

definition send_notification ::
  "env \<Rightarrow> PushoverClient \<Rightarrow> string \<Rightarrow> string option \<Rightarrow> world \<Rightarrow> (py_exception + bool) \<times> world" where
  "send_notification e c msg title w =
     (if \<not> truthy (token c) \<or> \<not> truthy (user c) then (Inr True, w)
      else
        let rq = notification_request c msg title
        in if \<not> list_all (\<lambda>kv. utf8_encodable (snd kv)) (data rq) then (Inl UnicodeEncodeError, w)
           else
             let w' = w\<lparr>posts := posts w @ [rq]\<rparr>
             in case post e (length (posts w)) rq of
                  Post_raises x \<Rightarrow> if is_RequestException x then (Inr False, w') else (Inl x, w')
                | Post_response status \<Rightarrow>
                    if raise_for_status status then (Inr False, w') else (Inr True, w'))"

definition registration_message :: "py_value \<Rightarrow> py_value \<Rightarrow> py_value \<Rightarrow> string" where
  "registration_message nm email notes =
     (let m = ''New user registration: '' @ py_str nm @ '' ('' @ py_str email @ '')''
      in if py_bool notes then m @ '' - Notes: '' @ py_str notes else m)"

definition send_user_registration ::
  "env \<Rightarrow> PushoverClient \<Rightarrow> py_value \<Rightarrow> py_value \<Rightarrow> py_value \<Rightarrow> world
     \<Rightarrow> (py_exception + bool) \<times> world" where
  "send_user_registration e c nm email notes w =
     send_notification e c (registration_message nm email notes) (Some ''User Registration'') w"

definition unknown_question_message :: "py_value \<Rightarrow> string" where
  "unknown_question_message question = ''Unknown question recorded: '' @ py_str question"

definition send_unknown_question ::
  "env \<Rightarrow> PushoverClient \<Rightarrow> py_value \<Rightarrow> world \<Rightarrow> (py_exception + bool) \<times> world" where
  "send_unknown_question e c question w =
     send_notification e c (unknown_question_message question) (Some ''Unknown Question'') w"

section \<open>Callback tools (\<^verbatim>\<open>tools/function_tools.py\<close>)\<close>

text \<open>
  A parameter with a default value takes \<open>None\<close> when the caller leaves it out. Python
  does not check the \<^verbatim>\<open>str\<close> annotations, so the parameters hold whatever was passed. Neither
  function has a \<^verbatim>\<open>try\<close>: an exception of the sender leaves the function.
\<close>

definition record_user_details ::
  "env \<Rightarrow> py_value \<Rightarrow> py_value option \<Rightarrow> py_value option \<Rightarrow> world
     \<Rightarrow> (py_exception + json) \<times> world" where
  "record_user_details e email name_arg notes_arg w =
     (let nm = (case name_arg of None \<Rightarrow> PStr ''Name not provided'' | Some v \<Rightarrow> v);
          notes = (case notes_arg of None \<Rightarrow> PStr ''not provided'' | Some v \<Rightarrow> v)
      in case send_user_registration e (notification_client e) nm email notes w of
           (Inl x, w') \<Rightarrow> (Inl x, w')
         | (Inr sent, w') \<Rightarrow> (Inr (JObj [(''recorded'', JStr ''ok'')]), w'))"

definition record_unknown_question ::
  "env \<Rightarrow> py_value \<Rightarrow> world \<Rightarrow> (py_exception + json) \<times> world" where
  "record_unknown_question e question w =
     (case send_unknown_question e (notification_client e) question w of
        (Inl x, w') \<Rightarrow> (Inl x, w')
      | (Inr sent, w') \<Rightarrow> (Inr (JObj [(''recorded'', JStr ''ok'')]), w'))"

definition record_user_details_json :: json where
  "record_user_details_json = JObj
     [(''name'', JStr ''record_user_details''),
      (''description'', JStr ''Use this tool to record that a user is interested in being in touch and provided an email address''),
      (''parameters'', JObj
        [(''type'', JStr ''object''),
         (''properties'', JObj
           [(''email'', JObj
              [(''type'', JStr ''string''),
               (''description'', JStr ''The email address of this user'')]),
            (''name'', JObj
              [(''type'', JStr ''string''),
               (''description'', JStr ''The user's name, if they provided it'')]),
            (''notes'', JObj
              [(''type'', JStr ''string''),
               (''description'', JStr ''Any additional information about the conversation that's worth recording to give context'')])]),
         (''required'', JArr [JStr ''email'']),
         (''additionalProperties'', JBool False)])]"

definition record_unknown_question_json :: json where
  "record_unknown_question_json = JObj
     [(''name'', JStr ''record_unknown_question''),
      (''description'', JStr ''Always use this tool to record any question that couldn't be answered as you didn't know the answer''),
      (''parameters'', JObj
        [(''type'', JStr ''object''),
         (''properties'', JObj
           [(''question'', JObj
              [(''type'', JStr ''string''),
               (''description'', JStr ''The question that couldn't be answered'')])]),
         (''required'', JArr [JStr ''question'']),
         (''additionalProperties'', JBool False)])]"

definition get_tool_definitions :: json where
  "get_tool_definitions = JArr
     [JObj [(''type'', JStr ''function''), (''function'', record_user_details_json)],
      JObj [(''type'', JStr ''function''), (''function'', record_unknown_question_json)]]"

subsection \<open>The module namespace\<close>

text \<open>
  \<^verbatim>\<open>globals().get(tool_name)\<close> looks the name up among the module's global names: its
  four functions, and the objects that are not functions (the imported \<^verbatim>\<open>json\<close> module,
  the \<^verbatim>\<open>typing\<close> names, the notification client, the module's own attributes). Every one
  of these objects is true in a condition.
\<close>

datatype module_function =
    Record_user_details
  | Record_unknown_question
  | Get_tool_definitions
  | Handle_tool_calls

datatype global_object = Function module_function | Other_object

definition other_globals :: "string list" where
  "other_globals =
     [''json'', ''Dict'', ''Any'', ''List'', ''notification_client'',
      ''__name__'', ''__doc__'', ''__package__'', ''__loader__'', ''__spec__'',
      ''__file__'', ''__cached__'', ''__builtins__'']"

definition globals_get :: "string \<Rightarrow> global_object option" where
  "globals_get nm =
     (if nm = ''record_user_details'' then Some (Function Record_user_details)
      else if nm = ''record_unknown_question'' then Some (Function Record_unknown_question)
      else if nm = ''get_tool_definitions'' then Some (Function Get_tool_definitions)
      else if nm = ''handle_tool_calls'' then Some (Function Handle_tool_calls)
      else if nm \<in> set other_globals then Some Other_object
      else None)"

text \<open>
  \<^verbatim>\<open>handle_tool_calls\<close> reached through the dispatcher receives a decoded value, not
  tool-call objects: the loop over an empty value returns the empty list, the first element
  of any other list, string or dict has no attribute \<^verbatim>\<open>function\<close>, and the other values
  cannot be iterated.
\<close>

fun handle_tool_calls_of_value :: "py_value \<Rightarrow> py_exception + json" where
  "handle_tool_calls_of_value (PList xs t) = (if xs = [] then Inr (JArr []) else Inl AttributeError)"
| "handle_tool_calls_of_value (PStr s) = (if s = [] then Inr (JArr []) else Inl AttributeError)"
| "handle_tool_calls_of_value (PDict kvs t) = (if kvs = [] then Inr (JArr []) else Inl AttributeError)"
| "handle_tool_calls_of_value v = Inl TypeError"

text \<open>
  \<^verbatim>\<open>tool_function(**arguments)\<close>: the arguments must be a dict; every key must be a
  parameter of the function and every parameter without a default must be among the keys,
  or the call raises \<^verbatim>\<open>TypeError\<close>. Calling an object that is not a function raises
  \<^verbatim>\<open>TypeError\<close> too.
\<close>

definition call_global ::
  "env \<Rightarrow> global_object \<Rightarrow> py_value \<Rightarrow> world \<Rightarrow> (py_exception + json) \<times> world" where
  "call_global e f arguments w =
     (case f of
        Other_object \<Rightarrow> (Inl TypeError, w)
      | Function g \<Rightarrow>
         (case arguments of
            PDict kvs t \<Rightarrow>
              (case g of
                 Record_user_details \<Rightarrow>
                   if set (map fst kvs) \<subseteq> {''email'', ''name'', ''notes''}
                   then (case map_of kvs ''email'' of
                           None \<Rightarrow> (Inl TypeError, w)
                         | Some email \<Rightarrow>
                             record_user_details e email (map_of kvs ''name'') (map_of kvs ''notes'') w)
                   else (Inl TypeError, w)
               | Record_unknown_question \<Rightarrow>
                   if set (map fst kvs) \<subseteq> {''question''}
                   then (case map_of kvs ''question'' of
                           None \<Rightarrow> (Inl TypeError, w)
                         | Some question \<Rightarrow> record_unknown_question e question w)
                   else (Inl TypeError, w)
               | Get_tool_definitions \<Rightarrow>
                   if kvs = [] then (Inr get_tool_definitions, w) else (Inl TypeError, w)
               | Handle_tool_calls \<Rightarrow>
                   if set (map fst kvs) \<subseteq> {''tool_calls''}
                   then (case map_of kvs ''tool_calls'' of
                           None \<Rightarrow> (Inl TypeError, w)
                         | Some v \<Rightarrow> (handle_tool_calls_of_value v, w))
                   else (Inl TypeError, w))
          | _ \<Rightarrow> (Inl TypeError, w)))"

subsection \<open>Dispatch\<close>

text \<open>
  One pass of the loop body of \<^verbatim>\<open>handle_tool_calls\<close> after the arguments are decoded: the
  lookup, the guarded call and the result object that \<^verbatim>\<open>json.dumps\<close> will encode.
\<close>

definition dispatch :: "env \<Rightarrow> string \<Rightarrow> py_value \<Rightarrow> world \<Rightarrow> payload \<times> world" where
  "dispatch e tool_name arguments w =
     (case globals_get tool_name of
        Some tool_function \<Rightarrow>
          (case call_global e tool_function arguments w of
             (Inr result, w') \<Rightarrow> (Dumps result, w')
           | (Inl x, w') \<Rightarrow> (Dumps_error x, w'))
      | None \<Rightarrow> (Dumps (JObj [(''error'', JStr (''Tool '' @ tool_name @ '' not found''))]), w))"

text \<open>
  The \<^verbatim>\<open>for\<close> loop, with the list \<open>results\<close> built so far. \<^verbatim>\<open>json.loads\<close> stands outside
  the \<^verbatim>\<open>try\<close>: when it raises, the exception leaves \<^verbatim>\<open>handle_tool_calls\<close>, and what the
  earlier calls did to the world stays done.
\<close>

fun handle_tool_calls_loop ::
  "env \<Rightarrow> tool_call list \<Rightarrow> turn list \<Rightarrow> world \<Rightarrow> (py_exception + turn list) \<times> world" where
  "handle_tool_calls_loop e [] results w = (Inr results, w)"
| "handle_tool_calls_loop e (tc # rest) results w =
     (case json_loads (function_arguments tc) of
        Inl x \<Rightarrow> (Inl x, w)
      | Inr arguments \<Rightarrow>
          (case dispatch e (function_name tc) arguments w of
             (result, w') \<Rightarrow>
               handle_tool_calls_loop e rest (results @ [Tool_result result (call_id tc)]) w'))"

definition handle_tool_calls ::
  "env \<Rightarrow> tool_call list \<Rightarrow> world \<Rightarrow> (py_exception + turn list) \<times> world" where
  "handle_tool_calls e tcs w = handle_tool_calls_loop e tcs [] w"

section \<open>Conversation orchestrator (\<^verbatim>\<open>ai_agent/agent.py\<close>)\<close>

record AIAgent =
  name :: string
  tools :: json
  linkedin_content :: string
  summary :: string

text \<open>
  \<^verbatim>\<open>__init__\<close>: the name given or else the configured one, the tool definitions, and the
  two background texts as \<^verbatim>\<open>_load_background_info\<close> read them from the files.
\<close>

definition AIAgent_init :: "string option \<Rightarrow> env \<Rightarrow> string \<Rightarrow> string \<Rightarrow> AIAgent" where
  "AIAgent_init nm e linkedin summ =
     \<lparr>name = the_str (py_or nm (Some (agent_name (config e)))),
      tools = get_tool_definitions,
      linkedin_content = linkedin,
      summary = summ\<rparr>"

definition get_system_prompt :: "AIAgent \<Rightarrow> string" where
  "get_system_prompt a =
     ''You are acting as '' @ name a @ ''. You are answering questions on '' @ name a @ '''s website, ''
     @ ''particularly questions related to '' @ name a @ '''s career, background, skills and experience. ''
     @ ''Your responsibility is to represent '' @ name a @ '' for interactions on the website as faithfully as possible. ''
     @ ''You are given a summary of '' @ name a @ '''s background and LinkedIn profile which you can use to answer questions. ''
     @ ''Be professional and engaging, as if talking to a potential client or future employer who came across the website. ''
     @ ''If you don't know the answer to any question, use your record_unknown_question tool to record the question that you couldn't answer, even if it's about something trivial or unrelated to career. ''
     @ ''If the user is engaging in discussion, try to steer them towards getting in touch via email; ask for their email and record it using your record_user_details tool.''
     @ [CHR 0x0A, CHR 0x0A] @ ''## Summary:'' @ [CHR 0x0A] @ summary a
     @ [CHR 0x0A, CHR 0x0A] @ ''## LinkedIn Profile:'' @ [CHR 0x0A] @ linkedin_content a @ [CHR 0x0A, CHR 0x0A]
     @ ''With this context, please chat with the user, always staying in character as '' @ name a @ ''.''"

definition apology :: string where
  "apology = ''I apologize, but I encountered an error processing your request. Please try again.''"

text \<open>
  One pass of the \<^verbatim>\<open>while\<close> loop of \<^verbatim>\<open>_process_conversation\<close> on the message list at
  address \<open>m\<close>: the body either returns from the function (the apology of the \<^verbatim>\<open>except\<close>
  branch, or the content of the response once \<open>done\<close> is set) or goes round again.
\<close>

datatype step = Return "string option" world | Continue world

text \<open>The call \<^verbatim>\<open>create(model=config.openai_model, messages=messages, tools=self.tools)\<close>.\<close>

definition completion_request :: "env \<Rightarrow> AIAgent \<Rightarrow> turn list \<Rightarrow> request" where
  "completion_request e a msgs =
     \<lparr>req_model = openai_model (config e), req_messages = msgs, req_tools = tools a\<rparr>"

definition loop_body :: "env \<Rightarrow> AIAgent \<Rightarrow> nat \<Rightarrow> world \<Rightarrow> step" where
  "loop_body e a m w =
     (let rq = completion_request e a (store w m);
          w1 = w\<lparr>requests := requests w @ [rq]\<rparr>
      in case create e (length (requests w)) rq of
           Create_raises x \<Rightarrow> Return (Some apology) w1
         | Create_returns choices \<Rightarrow>
            (case choices of
               [] \<Rightarrow> Return (Some apology) w1
             | c # cs \<Rightarrow>
                 if finish_reason c = ''tool_calls'' then
                   (case tool_calls (message c) of
                      None \<Rightarrow> Return (Some apology) w1
                    | Some tcs \<Rightarrow>
                       (case handle_tool_calls e tcs w1 of
                          (Inl x, w2) \<Rightarrow> Return (Some apology) w2
                        | (Inr tool_results, w2) \<Rightarrow>
                            Continue (w2\<lparr>store := (store w2)
                              (m := store w2 m @ [Completion_message (message c)] @ tool_results)\<rparr>)))
                 else Return (content (message c)) w1))"

partial_function (option) process_conversation ::
  "env \<Rightarrow> AIAgent \<Rightarrow> nat \<Rightarrow> world \<Rightarrow> (string option \<times> world) option" where
  "process_conversation e a m w =
     (case loop_body e a m w of
        Return r w' \<Rightarrow> Some (r, w')
      | Continue w' \<Rightarrow> process_conversation e a m w')"

text \<open>
  \<^verbatim>\<open>chat\<close> receives the history as the address \<open>h\<close> of the caller's list; the list
  concatenation builds a new list object, which \<^verbatim>\<open>_process_conversation\<close> then appends to.
\<close>

definition chat_messages :: "AIAgent \<Rightarrow> string \<Rightarrow> turn list \<Rightarrow> turn list" where
  "chat_messages a msg history =
     [Role_content ''system'' (get_system_prompt a)] @ history @ [Role_content ''user'' msg]"

definition new_list :: "turn list \<Rightarrow> world \<Rightarrow> nat \<times> world" where
  "new_list xs w = (next_free w, w\<lparr>store := (store w)(next_free w := xs), next_free := Suc (next_free w)\<rparr>)"

definition chat :: "env \<Rightarrow> AIAgent \<Rightarrow> string \<Rightarrow> nat \<Rightarrow> world \<Rightarrow> (string option \<times> world) option" where
  "chat e a msg h w =
     (case new_list (chat_messages a msg (store w h)) w of
        (m, w') \<Rightarrow> process_conversation e a m w')"

section \<open>Notions used to state the properties\<close>

text \<open>The entry \<^verbatim>\<open>"tool_call_id"\<close> of a turn, which only the dict of a tool result has.\<close>

fun tool_call_id :: "turn \<Rightarrow> string option" where
  "tool_call_id (Tool_result p i) = Some i"
| "tool_call_id _ = None"

fun step_world :: "step \<Rightarrow> world" where
  "step_world (Return r w) = w"
| "step_world (Continue w) = w"

text \<open>
  The world at the start of pass \<open>n\<close> (counted from 0) of the \<^verbatim>\<open>while\<close> loop that starts in
  \<open>w\<close>; \<open>None\<close> when the function has returned before that pass.
\<close>

fun loop_passes :: "env \<Rightarrow> AIAgent \<Rightarrow> nat \<Rightarrow> nat \<Rightarrow> world \<Rightarrow> world option" where
  "loop_passes e a m 0 w = Some w"
| "loop_passes e a m (Suc n) w =
     (case loop_body e a m w of
        Return r w' \<Rightarrow> None
      | Continue w' \<Rightarrow> loop_passes e a m n w')"

text \<open>
  A tool call whose argument text \<^verbatim>\<open>json.loads\<close> decodes; a response that requests tool
  calls all of which are such; a response whose finish reason is not \<^verbatim>\<open>"tool_calls"\<close>; a
  failed interaction (the client raises, or the response has no choice to index).
\<close>

definition decodable :: "tool_call \<Rightarrow> bool" where
  "decodable tc = (case function_arguments tc of Fails x \<Rightarrow> False | Decodes v \<Rightarrow> True)"

fun requests_tools :: "api_outcome \<Rightarrow> bool" where
  "requests_tools (Create_returns (c # cs)) =
     (finish_reason c = ''tool_calls'' \<and>
      (case tool_calls (message c) of None \<Rightarrow> False | Some tcs \<Rightarrow> list_all decodable tcs))"
| "requests_tools _ = False"

fun plain_answer :: "api_outcome \<Rightarrow> bool" where
  "plain_answer (Create_returns (c # cs)) = (finish_reason c \<noteq> ''tool_calls'')"
| "plain_answer _ = False"

fun answer_content :: "api_outcome \<Rightarrow> string option" where
  "answer_content (Create_returns (c # cs)) = content (message c)"
| "answer_content _ = None"

fun interaction_fails :: "api_outcome \<Rightarrow> bool" where
  "interaction_fails (Create_raises x) = True"
| "interaction_fails (Create_returns choices) = (choices = [])"


text \<open>The world in which \<^verbatim>\<open>chat\<close> enters the loop; the new message list is at the address
  that was the next free one.\<close>

definition chat_start :: "AIAgent \<Rightarrow> string \<Rightarrow> nat \<Rightarrow> world \<Rightarrow> world" where
  "chat_start a msg h w = snd (new_list (chat_messages a msg (store w h)) w)"

text \<open>
  A call of \<^verbatim>\<open>requests.post\<close> that returns a response or raises what the sender catches.
\<close>

fun post_handled :: "post_outcome \<Rightarrow> bool" where
  "post_handled (Post_raises x) = is_RequestException x"
| "post_handled (Post_response status) = True"

section \<open>Example runs\<close>

definition example_config :: config where
  "example_config =
     \<lparr>openai_model = ''gpt-4o-mini'', pushover_token = Some ''app-token'',
      pushover_user = Some ''user-key'', agent_name = ''Ankur Warikoo''\<rparr>"

definition silent_config :: config where
  "silent_config = example_config\<lparr>pushover_token := None, pushover_user := None\<rparr>"

definition example_world :: world where
  "example_world =
     \<lparr>requests = [], posts = [],
      store = (\<lambda>x. [])(0 := [Role_content ''user'' ''Hi'', Role_content ''assistant'' ''Hello'']),
      next_free = 1\<rparr>"

definition stop_choice :: "string \<Rightarrow> choice" where
  "stop_choice s =
     \<lparr>finish_reason = ''stop'', message = \<lparr>content = Some s, tool_calls = None\<rparr>\<rparr>"

definition tool_choice :: "tool_call list \<Rightarrow> choice" where
  "tool_choice tcs =
     \<lparr>finish_reason = ''tool_calls'', message = \<lparr>content = None, tool_calls = Some tcs\<rparr>\<rparr>"

definition question_call :: tool_call where
  "question_call =
     \<lparr>call_id = ''call_1'', function_name = ''record_unknown_question'',
      function_arguments =
        Decodes (PDict [(''question'', PStr ''What is X?'')] ''{'question': 'What is X?'}'')\<rparr>"

definition broken_call :: tool_call where
  "broken_call =
     \<lparr>call_id = ''call_1'', function_name = ''record_unknown_question'',
      function_arguments = Fails JSONDecodeError\<rparr>"



text \<open>
  Endpoints: one that answers at once; one whose client raises; one that first requests
  a tool call and then answers; one whose tool call carries text that is not JSON; one that
  requests a tool call every time. The notification endpoint accepts every request, except
  in the last two environments, where it replies 304 or cannot be reached.
\<close>

definition answering_env :: env where
  "answering_env =
     \<lparr>config = example_config,
      create = (\<lambda>k rq. Create_returns [stop_choice ''I am fine.'']),
      post = (\<lambda>k rq. Post_response 200)\<rparr>"

definition failing_env :: env where
  "failing_env = answering_env\<lparr>create := (\<lambda>k rq. Create_raises (OtherException ''timeout''))\<rparr>"

definition tool_env :: env where
  "tool_env = answering_env
     \<lparr>create := (\<lambda>k rq. if k = 0 then Create_returns [tool_choice [question_call]]
                         else Create_returns [stop_choice ''I have noted it.''])\<rparr>"

definition late_failing_env :: env where
  "late_failing_env = answering_env
     \<lparr>create := (\<lambda>k rq. if k = 0 then Create_returns [tool_choice [question_call]]
                         else Create_raises (OtherException ''timeout''))\<rparr>"

definition broken_env :: env where
  "broken_env = answering_env
     \<lparr>create := (\<lambda>k rq. if k = 0 then Create_returns [tool_choice [broken_call]]
                         else Create_returns [stop_choice ''I have noted it.''])\<rparr>"

definition looping_env :: env where
  "looping_env = answering_env\<lparr>create := (\<lambda>k rq. Create_returns [tool_choice [question_call]])\<rparr>"

definition silent_env :: env where
  "silent_env = answering_env\<lparr>config := silent_config\<rparr>"

definition not_modified_env :: env where
  "not_modified_env = answering_env\<lparr>post := (\<lambda>k rq. Post_response 304)\<rparr>"

definition unreachable_env :: env where
  "unreachable_env = answering_env\<lparr>post := (\<lambda>k rq. Post_raises RequestException)\<rparr>"

text \<open>The string of one character, the surrogate U+D83D, as \<^verbatim>\<open>json.loads\<close> makes it of
  the text \<^verbatim>\<open>"\ud83d"\<close>.\<close>

definition surrogate_text :: string where
  "surrogate_text = [CHR 0xED, CHR 0xA0, CHR 0xBD]"

text \<open>An environment whose configured token holds that surrogate.\<close>

definition garbled_env :: env where
  "garbled_env =
     answering_env\<lparr>config := example_config\<lparr>pushover_token := Some surrogate_text\<rparr>\<rparr>"

definition example_agent :: AIAgent where
  "example_agent = AIAgent_init None answering_env ''Founder and teacher.'' ''I teach.''"

section \<open>Facts about strings\<close>

lemma has_surrogate_Cons:
  "c \<noteq> CHR 0xED \<Longrightarrow> has_surrogate (c # ys) = has_surrogate ys"
  by (cases ys) simp_all

lemma has_surrogate_append:
  "\<not> has_surrogate (xs @ [c]) \<Longrightarrow> c \<noteq> CHR 0xED \<Longrightarrow> \<not> has_surrogate ys \<Longrightarrow>
   \<not> has_surrogate (xs @ c # ys)"
  by (induction xs rule: has_surrogate.induct) (simp_all add: has_surrogate_Cons)

section \<open>Facts about the notification sender\<close>

lemma send_notification_frame:
  "requests (snd (send_notification e c msg title w)) = requests w \<and>
   store (snd (send_notification e c msg title w)) = store w \<and>
   next_free (snd (send_notification e c msg title w)) = next_free w"
  by (simp add: send_notification_def Let_def split: post_outcome.splits)

lemma form_data_encodable:
  "list_all (\<lambda>kv. utf8_encodable (snd kv)) (form_data c msg title) =
     (utf8_encodable (the_str (token c)) \<and> utf8_encodable (the_str (user c)) \<and>
      utf8_encodable msg \<and> (truthy title \<longrightarrow> utf8_encodable (the_str title)))"
  by (simp add: form_data_def Let_def)

lemma notification_request_fields:
  "url (notification_request c msg title) = api_url c"
  "timeout (notification_request c msg title) = 10"
  "map_of (data (notification_request c msg title)) ''message'' = Some msg"
  "map_of (data (notification_request c msg title)) ''title'' = (if truthy title then title else None)"
proof -
  have "truthy title \<Longrightarrow> Some (the_str title) = title"
    by (cases title) simp_all
  then show "map_of (data (notification_request c msg title)) ''title'' =
      (if truthy title then title else None)"
    by (simp add: notification_request_def form_data_def Let_def)
qed (simp_all add: notification_request_def form_data_def Let_def)

lemma send_notification_unconfigured:
  "\<not> truthy (token c) \<or> \<not> truthy (user c) \<Longrightarrow> send_notification e c msg title w = (Inr True, w)"
  by (auto simp add: send_notification_def)

lemma send_notification_unencodable:
  assumes "truthy (token c)" and "truthy (user c)"
    and "\<not> (utf8_encodable (the_str (token c)) \<and> utf8_encodable (the_str (user c)) \<and>
            utf8_encodable msg \<and> (truthy title \<longrightarrow> utf8_encodable (the_str title)))"
  shows "send_notification e c msg title w = (Inl UnicodeEncodeError, w)"
proof -
  from assms(3) have "\<not> list_all (\<lambda>kv. utf8_encodable (snd kv)) (data (notification_request c msg title))"
    by (simp add: notification_request_def form_data_encodable)
  with assms(1,2) show ?thesis
    by (simp add: send_notification_def Let_def)
qed

lemma send_notification_sent:
  assumes "truthy (token c)" and "truthy (user c)"
    and "utf8_encodable (the_str (token c)) \<and> utf8_encodable (the_str (user c)) \<and>
         utf8_encodable msg \<and> (truthy title \<longrightarrow> utf8_encodable (the_str title))"
  shows "send_notification e c msg title w =
           (case post e (length (posts w)) (notification_request c msg title) of
              Post_raises x \<Rightarrow> if is_RequestException x then Inr False else Inl x
            | Post_response status \<Rightarrow> Inr (\<not> (400 \<le> status \<and> status < 600)),
            w\<lparr>posts := posts w @ [notification_request c msg title]\<rparr>)"
proof -
  from assms(3) have "list_all (\<lambda>kv. utf8_encodable (snd kv)) (data (notification_request c msg title))"
    by (simp add: notification_request_def form_data_encodable)
  with assms(1,2) show ?thesis
    by (simp add: send_notification_def Let_def raise_for_status_def split: post_outcome.splits)
qed

lemma client_simps:
  "token (notification_client e) = pushover_token (config e)"
  "user (notification_client e) = pushover_user (config e)"
  "api_url (notification_client e) = ''https://api.pushover.net/1/messages.json''"
  by (simp_all add: notification_client_def PushoverClient_init_def py_or_def)

lemma example_configs:
  "config answering_env = example_config" "config not_modified_env = example_config"
  "config unreachable_env = example_config" "config silent_env = silent_config"
  "pushover_token example_config = Some ''app-token''"
  "pushover_user example_config = Some ''user-key''"
  "pushover_token silent_config = None" "pushover_user silent_config = None"
  by (simp_all add: answering_env_def not_modified_env_def unreachable_env_def silent_env_def
      example_config_def silent_config_def)

lemma example_credentials_encodable:
  "utf8_encodable ''app-token''" "utf8_encodable ''user-key''" "\<not> utf8_encodable surrogate_text"
  by (simp_all add: utf8_encodable_def surrogate_text_def)

text \<open>
  Claim C8, as the code has it. \<^verbatim>\<open>send_notification\<close> with the token or the user key unset
  (or empty) returns \<open>True\<close> and leaves the world as it was: no request goes out. With both
  set, a token, user key, message or title that cannot be encoded as UTF-8 makes
  \<^verbatim>\<open>requests.post\<close> raise \<^verbatim>\<open>UnicodeEncodeError\<close>, which leaves the function, and nothing is
  sent. Otherwise exactly one request goes out, to the client's URL with a timeout of 10
  seconds, carrying the message (and the title, when there is one); the function returns
  \<open>False\<close> when the request raises a \<^verbatim>\<open>RequestException\<close> or the response has a 4xx or 5xx
  status, \<open>True\<close> for every other status, and it lets any other exception of the request
  pass to the caller.
\<close>

theorem send_notification_contract:
  "(\<not> truthy (token c) \<or> \<not> truthy (user c) \<longrightarrow>
      send_notification e c msg title w = (Inr True, w)) \<and>
   (truthy (token c) \<and> truthy (user c) \<and>
    \<not> (utf8_encodable (the_str (token c)) \<and> utf8_encodable (the_str (user c)) \<and>
       utf8_encodable msg \<and> (truthy title \<longrightarrow> utf8_encodable (the_str title))) \<longrightarrow>
      send_notification e c msg title w = (Inl UnicodeEncodeError, w)) \<and>
   (truthy (token c) \<and> truthy (user c) \<and>
    utf8_encodable (the_str (token c)) \<and> utf8_encodable (the_str (user c)) \<and>
    utf8_encodable msg \<and> (truthy title \<longrightarrow> utf8_encodable (the_str title)) \<longrightarrow>
      (\<exists>rq. snd (send_notification e c msg title w) = w\<lparr>posts := posts w @ [rq]\<rparr> \<and>
            url rq = api_url c \<and> timeout rq = 10 \<and>
            map_of (data rq) ''message'' = Some msg \<and>
            map_of (data rq) ''title'' = (if truthy title then title else None) \<and>
            fst (send_notification e c msg title w) =
              (case post e (length (posts w)) rq of
                 Post_raises x \<Rightarrow> if is_RequestException x then Inr False else Inl x
               | Post_response status \<Rightarrow> Inr (\<not> (400 \<le> status \<and> status < 600)))))"
proof (intro conjI impI)
  assume "\<not> truthy (token c) \<or> \<not> truthy (user c)"
  then show "send_notification e c msg title w = (Inr True, w)"
    by (rule send_notification_unconfigured)
next
  assume "truthy (token c) \<and> truthy (user c) \<and>
    \<not> (utf8_encodable (the_str (token c)) \<and> utf8_encodable (the_str (user c)) \<and>
       utf8_encodable msg \<and> (truthy title \<longrightarrow> utf8_encodable (the_str title)))"
  then show "send_notification e c msg title w = (Inl UnicodeEncodeError, w)"
    using send_notification_unencodable by blast
next
  assume a: "truthy (token c) \<and> truthy (user c) \<and>
    utf8_encodable (the_str (token c)) \<and> utf8_encodable (the_str (user c)) \<and>
    utf8_encodable msg \<and> (truthy title \<longrightarrow> utf8_encodable (the_str title))"
  then have "send_notification e c msg title w =
           (case post e (length (posts w)) (notification_request c msg title) of
              Post_raises x \<Rightarrow> if is_RequestException x then Inr False else Inl x
            | Post_response status \<Rightarrow> Inr (\<not> (400 \<le> status \<and> status < 600)),
            w\<lparr>posts := posts w @ [notification_request c msg title]\<rparr>)"
    using send_notification_sent by blast
  then show "\<exists>rq. snd (send_notification e c msg title w) = w\<lparr>posts := posts w @ [rq]\<rparr> \<and>
            url rq = api_url c \<and> timeout rq = 10 \<and>
            map_of (data rq) ''message'' = Some msg \<and>
            map_of (data rq) ''title'' = (if truthy title then title else None) \<and>
            fst (send_notification e c msg title w) =
              (case post e (length (posts w)) rq of
                 Post_raises x \<Rightarrow> if is_RequestException x then Inr False else Inl x
               | Post_response status \<Rightarrow> Inr (\<not> (400 \<le> status \<and> status < 600)))"
    by (intro exI [of _ "notification_request c msg title"])
       (simp add: notification_request_fields)
qed

text \<open>
  The theorem at work: without credentials nothing is sent and the answer is \<open>True\<close>; with
  credentials and an endpoint that cannot be reached the answer is \<open>False\<close>; with credentials
  and a message that holds a surrogate the function raises and nothing is sent.
\<close>

theorem send_notification_contract_witness:
  "send_notification silent_env (notification_client silent_env) ''hello'' None example_world
     = (Inr True, example_world) \<and>
   fst (send_notification unreachable_env (notification_client unreachable_env) ''hello'' None
     example_world) = Inr False \<and>
   send_notification answering_env (notification_client answering_env) surrogate_text None
     example_world = (Inl UnicodeEncodeError, example_world)"
proof -
  note inst0 = send_notification_contract
    [of "notification_client silent_env" silent_env "''hello''" None example_world]
  note inst1 = send_notification_contract
    [of "notification_client unreachable_env" unreachable_env "''hello''" None example_world]
  note inst2 = send_notification_contract
    [of "notification_client answering_env" answering_env surrogate_text None example_world]
  have "\<not> truthy (token (notification_client silent_env)) \<or>
        \<not> truthy (user (notification_client silent_env))"
    by (simp add: client_simps example_configs)
  with inst0 [THEN conjunct1]
  have a: "send_notification silent_env (notification_client silent_env) ''hello'' None example_world
     = (Inr True, example_world)" by (rule mp)
  have "truthy (token (notification_client unreachable_env)) \<and>
        truthy (user (notification_client unreachable_env)) \<and>
        utf8_encodable (the_str (token (notification_client unreachable_env))) \<and>
        utf8_encodable (the_str (user (notification_client unreachable_env))) \<and>
        utf8_encodable ''hello'' \<and> (truthy None \<longrightarrow> utf8_encodable (the_str None))"
    by (simp add: client_simps example_configs utf8_encodable_def)
  with inst1 [THEN conjunct2, THEN conjunct2]
  obtain rq where "fst (send_notification unreachable_env (notification_client unreachable_env)
      ''hello'' None example_world) =
      (case post unreachable_env (length (posts example_world)) rq of
         Post_raises x \<Rightarrow> if is_RequestException x then Inr False else Inl x
       | Post_response status \<Rightarrow> Inr (\<not> (400 \<le> status \<and> status < 600)))"
    by blast
  moreover have "post unreachable_env k rq = Post_raises RequestException" for k
    by (simp add: unreachable_env_def)
  ultimately have b: "fst (send_notification unreachable_env (notification_client unreachable_env)
      ''hello'' None example_world) = Inr False"
    by simp
  have "truthy (token (notification_client answering_env)) \<and>
        truthy (user (notification_client answering_env)) \<and>
        \<not> (utf8_encodable (the_str (token (notification_client answering_env))) \<and>
           utf8_encodable (the_str (user (notification_client answering_env))) \<and>
           utf8_encodable surrogate_text \<and> (truthy None \<longrightarrow> utf8_encodable (the_str None)))"
    by (simp add: client_simps example_configs example_credentials_encodable)
  with inst2 [THEN conjunct2, THEN conjunct1]
  have c: "send_notification answering_env (notification_client answering_env) surrogate_text None
     example_world = (Inl UnicodeEncodeError, example_world)"
    by (rule mp)
  from a b c show ?thesis by (intro conjI)
qed

text \<open>
  Claim C8 as the specification words it fails: a response with status 304 is not a 2xx
  response, \<^verbatim>\<open>raise_for_status\<close> lets it pass, and \<^verbatim>\<open>send_notification\<close> returns \<open>True\<close>.
\<close>

theorem send_notification_non_2xx_counterexample:
  "\<not> (200 \<le> (304::nat) \<and> (304::nat) < 300) \<and>
   post not_modified_env 0
     \<lparr>url = ''https://api.pushover.net/1/messages.json'',
      data = [(''token'', ''app-token''), (''user'', ''user-key''), (''message'', ''hello'')],
      timeout = 10\<rparr> = Post_response 304 \<and>
   send_notification not_modified_env (notification_client not_modified_env) ''hello'' None
     example_world =
     (Inr True, example_world\<lparr>posts :=
        [\<lparr>url = ''https://api.pushover.net/1/messages.json'',
          data = [(''token'', ''app-token''), (''user'', ''user-key''), (''message'', ''hello'')],
          timeout = 10\<rparr>]\<rparr>)"
  by (simp add: send_notification_def notification_request_def form_data_def client_simps
      example_configs raise_for_status_def example_world_def not_modified_env_def
      utf8_encodable_def)

section \<open>Facts about the tools\<close>

lemma record_user_details_frame:
  "requests (snd (record_user_details e email n1 n2 w)) = requests w \<and>
   store (snd (record_user_details e email n1 n2 w)) = store w \<and>
   next_free (snd (record_user_details e email n1 n2 w)) = next_free w"
  using send_notification_frame
  by (simp add: record_user_details_def send_user_registration_def Let_def split_beta
      split: sum.splits)

lemma record_unknown_question_frame:
  "requests (snd (record_unknown_question e q w)) = requests w \<and>
   store (snd (record_unknown_question e q w)) = store w \<and>
   next_free (snd (record_unknown_question e q w)) = next_free w"
  using send_notification_frame
  by (simp add: record_unknown_question_def send_unknown_question_def split_beta
      split: sum.splits)

lemma call_global_frame:
  "requests (snd (call_global e f args w)) = requests w \<and>
   store (snd (call_global e f args w)) = store w \<and>
   next_free (snd (call_global e f args w)) = next_free w"
  using record_user_details_frame record_unknown_question_frame
  by (simp add: call_global_def split_beta
      split: global_object.splits py_value.splits module_function.splits option.splits)

lemma dispatch_frame:
  "requests (snd (dispatch e nm args w)) = requests w \<and>
   store (snd (dispatch e nm args w)) = store w \<and>
   next_free (snd (dispatch e nm args w)) = next_free w"
  using call_global_frame [of e _ args w]
  by (simp add: dispatch_def split_beta split: option.splits sum.splits)

lemma handle_tool_calls_loop_frame:
  "requests (snd (handle_tool_calls_loop e tcs acc w)) = requests w \<and>
   store (snd (handle_tool_calls_loop e tcs acc w)) = store w \<and>
   next_free (snd (handle_tool_calls_loop e tcs acc w)) = next_free w"
proof (induction tcs arbitrary: acc w)
  case Nil
  show ?case by simp
next
  case (Cons tc rest)
  show ?case
  proof (cases "function_arguments tc")
    case (Fails x)
    then show ?thesis by simp
  next
    case (Decodes v)
    obtain p w' where d: "dispatch e (function_name tc) v w = (p, w')"
      by (cases "dispatch e (function_name tc) v w")
    with dispatch_frame [of e "function_name tc" v w]
    have "requests w' = requests w \<and> store w' = store w \<and> next_free w' = next_free w"
      by simp
    with Cons.IH [of "acc @ [Tool_result p (call_id tc)]" w'] Decodes d
    show ?thesis by simp
  qed
qed

lemma handle_tool_calls_loop_valid:
  "list_all decodable tcs \<Longrightarrow>
   \<exists>rs. fst (handle_tool_calls_loop e tcs acc w) = Inr (acc @ rs) \<and>
        map tool_call_id rs = map (\<lambda>tc. Some (call_id tc)) tcs"
proof (induction tcs arbitrary: acc w)
  case Nil
  show ?case by simp
next
  case (Cons tc rest)
  from Cons.prems obtain v where v: "function_arguments tc = Decodes v"
    by (cases "function_arguments tc") (simp_all add: decodable_def)
  obtain p w' where d: "dispatch e (function_name tc) v w = (p, w')"
    by (cases "dispatch e (function_name tc) v w")
  from Cons.prems have "list_all decodable rest" by simp
  from Cons.IH [OF this, of "acc @ [Tool_result p (call_id tc)]" w']
  obtain rs where rs:
    "fst (handle_tool_calls_loop e rest (acc @ [Tool_result p (call_id tc)]) w')
       = Inr ((acc @ [Tool_result p (call_id tc)]) @ rs)"
    "map tool_call_id rs = map (\<lambda>tc. Some (call_id tc)) rest"
    by blast
  show ?case
    by (rule exI [of _ "Tool_result p (call_id tc) # rs"]) (simp add: v d rs)
qed


section \<open>Facts about the loop\<close>

lemma handle_tool_calls_frame:
  "handle_tool_calls e tcs w = (r, w') \<Longrightarrow>
   requests w' = requests w \<and> store w' = store w \<and> next_free w' = next_free w"
  using handle_tool_calls_loop_frame [of e tcs "[]" w]
  by (simp add: handle_tool_calls_def)

lemma handle_tool_calls_valid:
  assumes "list_all decodable tcs"
  shows "\<exists>rs w'. handle_tool_calls e tcs w = (Inr rs, w') \<and>
           map tool_call_id rs = map (\<lambda>tc. Some (call_id tc)) tcs"
proof -
  from handle_tool_calls_loop_valid [OF assms, of e "[]" w]
  obtain rs where "fst (handle_tool_calls e tcs w) = Inr rs"
    and "map tool_call_id rs = map (\<lambda>tc. Some (call_id tc)) tcs"
    by (auto simp add: handle_tool_calls_def)
  then show ?thesis
    by (cases "handle_tool_calls e tcs w") auto
qed


text \<open>The five ways through one pass.\<close>

lemma loop_body_cases:
  fixes e a m w
  defines "rq \<equiv> completion_request e a (store w m)"
  defines "w1 \<equiv> w\<lparr>requests := requests w @ [rq]\<rparr>"
  obtains
    (fails) "interaction_fails (create e (length (requests w)) rq)"
      "loop_body e a m w = Return (Some apology) w1"
  | (plain) c cs where "create e (length (requests w)) rq = Create_returns (c # cs)"
      "finish_reason c \<noteq> ''tool_calls''"
      "loop_body e a m w = Return (content (message c)) w1"
  | (no_list) c cs where "create e (length (requests w)) rq = Create_returns (c # cs)"
      "finish_reason c = ''tool_calls''" "tool_calls (message c) = None"
      "loop_body e a m w = Return (Some apology) w1"
  | (raised) c cs tcs x w2 where "create e (length (requests w)) rq = Create_returns (c # cs)"
      "finish_reason c = ''tool_calls''" "tool_calls (message c) = Some tcs"
      "handle_tool_calls e tcs w1 = (Inl x, w2)"
      "loop_body e a m w = Return (Some apology) w2"
  | (handled) c cs tcs rs w2 where "create e (length (requests w)) rq = Create_returns (c # cs)"
      "finish_reason c = ''tool_calls''" "tool_calls (message c) = Some tcs"
      "handle_tool_calls e tcs w1 = (Inr rs, w2)"
      "loop_body e a m w =
         Continue (w2\<lparr>store := (store w2)(m := store w2 m @ [Completion_message (message c)] @ rs)\<rparr>)"
proof (cases "create e (length (requests w)) rq")
  case (Create_raises x)
  then show ?thesis
    using fails by (simp add: loop_body_def Let_def rq_def w1_def)
next
  case (Create_returns choices)
  show ?thesis
  proof (cases choices)
    case Nil
    with Create_returns show ?thesis
      using fails by (simp add: loop_body_def Let_def rq_def w1_def)
  next
    case (Cons c cs)
    note r = Create_returns [unfolded Cons]
    show ?thesis
    proof (cases "finish_reason c = ''tool_calls''")
      case False
      with r show ?thesis
        using plain [of c cs] by (simp add: loop_body_def Let_def rq_def w1_def)
    next
      case True
      show ?thesis
      proof (cases "tool_calls (message c)")
        case None
        with r True show ?thesis
          using no_list [of c cs] by (simp add: loop_body_def Let_def rq_def w1_def)
      next
        case (Some tcs)
        obtain res w2 where h: "handle_tool_calls e tcs w1 = (res, w2)"
          by (cases "handle_tool_calls e tcs w1")
        show ?thesis
        proof (cases res)
          case (Inl x)
          with r True Some h show ?thesis
            using raised [of c cs tcs x w2] by (simp add: loop_body_def Let_def rq_def w1_def)
        next
          case (Inr rs)
          with r True Some h show ?thesis
            using handled [of c cs tcs rs w2] by (simp add: loop_body_def Let_def rq_def w1_def)
        qed
      qed
    qed
  qed
qed

text \<open>What one pass does to the world, whichever way it ends.\<close>

lemma loop_body_frame:
  "requests (step_world (loop_body e a m w)) = requests w @ [completion_request e a (store w m)] \<and>
   next_free (step_world (loop_body e a m w)) = next_free w \<and>
   (\<forall>x. x \<noteq> m \<longrightarrow> store (step_world (loop_body e a m w)) x = store w x)"
proof (cases e a m w rule: loop_body_cases)
  case fails
  then show ?thesis by simp
next
  case (plain c cs)
  then show ?thesis by simp
next
  case (no_list c cs)
  then show ?thesis by simp
next
  case (raised c cs tcs x w2)
  from handle_tool_calls_frame [OF raised(4)] raised(5) show ?thesis by simp
next
  case (handled c cs tcs rs w2)
  from handle_tool_calls_frame [OF handled(4)] handled(5) show ?thesis by simp
qed

lemma loop_body_Return_store:
  assumes "loop_body e a m w = Return r w'"
  shows "store w' = store w"
proof (cases e a m w rule: loop_body_cases)
  case fails
  with assms show ?thesis by auto
next
  case (plain c cs)
  with assms show ?thesis by auto
next
  case (no_list c cs)
  with assms show ?thesis by auto
next
  case (raised c cs tcs x w2)
  from handle_tool_calls_frame [OF raised(4)] raised(5) assms show ?thesis by auto
next
  case (handled c cs tcs rs w2)
  with assms show ?thesis by simp
qed

lemma loop_body_fails:
  "interaction_fails (create e (length (requests w)) (completion_request e a (store w m))) \<Longrightarrow>
   loop_body e a m w =
     Return (Some apology) (w\<lparr>requests := requests w @ [completion_request e a (store w m)]\<rparr>)"
  by (cases "create e (length (requests w)) (completion_request e a (store w m))")
     (simp_all add: loop_body_def Let_def)

lemma loop_body_plain:
  "plain_answer (create e (length (requests w)) (completion_request e a (store w m))) \<Longrightarrow>
   loop_body e a m w =
     Return (answer_content (create e (length (requests w)) (completion_request e a (store w m))))
       (w\<lparr>requests := requests w @ [completion_request e a (store w m)]\<rparr>)"
  by (cases "create e (length (requests w)) (completion_request e a (store w m))")
     (auto simp add: loop_body_def Let_def split: list.splits)

lemma loop_body_tools:
  assumes "create e (length (requests w)) (completion_request e a (store w m)) = Create_returns (c # cs)"
    and "finish_reason c = ''tool_calls''"
    and "tool_calls (message c) = Some tcs"
    and "list_all decodable tcs"
  shows "\<exists>w' rs. loop_body e a m w = Continue w' \<and>
           requests w' = requests w @ [completion_request e a (store w m)] \<and>
           store w' m = store w m @ [Completion_message (message c)] @ rs \<and>
           map tool_call_id rs = map (\<lambda>tc. Some (call_id tc)) tcs \<and>
           (\<forall>x. x \<noteq> m \<longrightarrow> store w' x = store w x) \<and>
           next_free w' = next_free w"
proof -
  let ?w1 = "w\<lparr>requests := requests w @ [completion_request e a (store w m)]\<rparr>"
  from handle_tool_calls_valid [OF assms(4), of e ?w1]
  obtain rs w2 where h: "handle_tool_calls e tcs ?w1 = (Inr rs, w2)"
    and ids: "map tool_call_id rs = map (\<lambda>tc. Some (call_id tc)) tcs"
    by blast
  from handle_tool_calls_frame [OF h]
  have f: "requests w2 = requests ?w1" "store w2 = store w" "next_free w2 = next_free w"
    by simp_all
  let ?w' = "w2\<lparr>store := (store w2)(m := store w2 m @ [Completion_message (message c)] @ rs)\<rparr>"
  have "loop_body e a m w = Continue ?w'"
    using assms(1-3) h by (simp add: loop_body_def Let_def)
  then show ?thesis
    using f ids by (intro exI [of _ ?w'] exI [of _ rs]) simp
qed

lemma loop_body_requests_tools:
  assumes "requests_tools (create e (length (requests w)) (completion_request e a (store w m)))"
  shows "\<exists>w'. loop_body e a m w = Continue w'"
proof -
  from assms obtain c cs tcs where
    "create e (length (requests w)) (completion_request e a (store w m)) = Create_returns (c # cs)"
    "finish_reason c = ''tool_calls''" "tool_calls (message c) = Some tcs"
    "list_all decodable tcs"
    by (cases "create e (length (requests w)) (completion_request e a (store w m))" rule: requests_tools.cases)
       (auto split: option.splits)
  from loop_body_tools [OF this] show ?thesis by blast
qed


text \<open>The passes of the loop and the function.\<close>

lemma process_conversation_passes:
  "loop_passes e a m n w = Some wn \<Longrightarrow>
   process_conversation e a m w = process_conversation e a m wn"
proof (induction n arbitrary: w)
  case 0
  then show ?case by simp
next
  case (Suc n)
  then show ?case
    by (subst process_conversation.simps) (auto split: step.splits)
qed

lemma process_conversation_Return:
  "loop_body e a m w = Return r w' \<Longrightarrow> process_conversation e a m w = Some (r, w')"
  by (subst process_conversation.simps) simp

lemma process_conversation_returns:
  "process_conversation e a m w = Some y \<Longrightarrow>
   \<exists>n wn. loop_passes e a m n w = Some wn \<and> loop_body e a m wn = Return (fst y) (snd y)"
proof (induction rule: process_conversation.raw_induct[rotated 1, consumes 1])
  case (1 process_conversation e a m w y)
  show ?case
  proof (cases "loop_body e a m w")
    case (Return r w')
    with 1(2) have "loop_passes e a m 0 w = Some w \<and> loop_body e a m w = Return (fst y) (snd y)"
      by auto
    then show ?thesis by blast
  next
    case (Continue w')
    with 1(2) have "process_conversation e a m w' = Some y" by simp
    from 1(1) [OF this] obtain n wn where
      "loop_passes e a m n w' = Some wn" "loop_body e a m wn = Return (fst y) (snd y)"
      by blast
    with Continue have "loop_passes e a m (Suc n) w = Some wn \<and> loop_body e a m wn = Return (fst y) (snd y)"
      by simp
    then show ?thesis by blast
  qed
qed

lemma loop_passes_frame:
  "loop_passes e a m n w = Some wn \<Longrightarrow>
   (\<exists>rqs. requests wn = requests w @ rqs \<and> length rqs = n) \<and>
   next_free wn = next_free w \<and>
   (\<forall>x. x \<noteq> m \<longrightarrow> store wn x = store w x)"
proof (induction n arbitrary: w)
  case 0
  then show ?case by simp
next
  case (Suc n)
  then obtain w' where c: "loop_body e a m w = Continue w'" and p: "loop_passes e a m n w' = Some wn"
    by (auto split: step.splits)
  from loop_body_frame [of e a m w] c
  have f: "requests w' = requests w @ [completion_request e a (store w m)]"
    "next_free w' = next_free w" "\<forall>x. x \<noteq> m \<longrightarrow> store w' x = store w x"
    by simp_all
  from Suc.IH [OF p] obtain rqs where g: "requests wn = requests w' @ rqs" "length rqs = n"
    "next_free wn = next_free w'" "\<forall>x. x \<noteq> m \<longrightarrow> store wn x = store w' x"
    by blast
  have "requests wn = requests w @ (completion_request e a (store w m) # rqs) \<and>
        length (completion_request e a (store w m) # rqs) = Suc n"
    using f(1) g(1,2) by simp
  then have "\<exists>rqs. requests wn = requests w @ rqs \<and> length rqs = Suc n"
    by blast
  with f g show ?case by simp
qed

section \<open>Facts about \<^verbatim>\<open>chat\<close>\<close>

lemma chat_unfold:
  "chat e a msg h w = process_conversation e a (next_free w) (chat_start a msg h w)"
  by (simp add: chat_def chat_start_def new_list_def)

lemma chat_start_simps:
  "requests (chat_start a msg h w) = requests w"
  "posts (chat_start a msg h w) = posts w"
  "next_free (chat_start a msg h w) = Suc (next_free w)"
  "store (chat_start a msg h w) (next_free w) = chat_messages a msg (store w h)"
  "x \<noteq> next_free w \<Longrightarrow> store (chat_start a msg h w) x = store w x"
  by (simp_all add: chat_start_def new_list_def)

text \<open>Passes that all request tools with valid arguments go round, as many as there are.\<close>

lemma loop_passes_tools:
  "\<forall>i<n. \<forall>rq. requests_tools (create e (length (requests w) + i) rq) \<Longrightarrow>
   \<exists>wn. loop_passes e a m n w = Some wn"
proof (induction n arbitrary: w)
  case 0
  show ?case by simp
next
  case (Suc n)
  from Suc.prems have "requests_tools (create e (length (requests w)) (completion_request e a (store w m)))"
    by (metis add.right_neutral zero_less_Suc)
  from loop_body_requests_tools [OF this] obtain w' where c: "loop_body e a m w = Continue w'"
    by blast
  with loop_body_frame [of e a m w] have len: "length (requests w') = Suc (length (requests w))"
    by simp
  have "\<forall>i<n. \<forall>rq. requests_tools (create e (length (requests w') + i) rq)"
  proof (intro allI impI)
    fix i rq
    assume "i < n"
    then have "Suc i < Suc n" by simp
    with Suc.prems have "requests_tools (create e (length (requests w) + Suc i) rq)" by blast
    then show "requests_tools (create e (length (requests w') + i) rq)" by (simp add: len)
  qed
  from Suc.IH [OF this] obtain wn where "loop_passes e a m n w' = Some wn" by blast
  with c show ?case by simp
qed

lemma process_conversation_terminates:
  assumes "\<forall>i<n. \<forall>rq. requests_tools (create e (length (requests w) + i) rq)"
    and "\<forall>rq. plain_answer (create e (length (requests w) + n) rq)"
  shows "\<exists>wn. loop_passes e a m n w = Some wn \<and>
           process_conversation e a m w =
             Some (answer_content (create e (length (requests w) + n) (completion_request e a (store wn m))),
                   wn\<lparr>requests := requests wn @ [completion_request e a (store wn m)]\<rparr>)"
proof -
  from loop_passes_tools [OF assms(1)] obtain wn where p: "loop_passes e a m n w = Some wn"
    by blast
  from loop_passes_frame [OF p] have len: "length (requests wn) = length (requests w) + n"
    by auto
  with assms(2) have "plain_answer (create e (length (requests wn)) (completion_request e a (store wn m)))"
    by simp
  from process_conversation_Return [OF loop_body_plain [OF this]]
    process_conversation_passes [OF p] p len
  show ?thesis by simp
qed


lemma get_system_prompt_cong:
  "name a = name b \<Longrightarrow> summary a = summary b \<Longrightarrow> linkedin_content a = linkedin_content b \<Longrightarrow>
   get_system_prompt a = get_system_prompt b"
  unfolding get_system_prompt_def
  by (rule arg_cong2 [where f = append] | rule refl | assumption)+

lemma sublist_skip:
  assumes "sublist xs ys"
  shows "sublist xs (zs @ ys)"
proof -
  from assms obtain ps ss where "ys = ps @ xs @ ss"
    by (auto simp add: sublist_def)
  then have "zs @ ys = (zs @ ps) @ xs @ ss"
    by simp
  then show ?thesis
    unfolding sublist_def by blast
qed

lemma get_system_prompt_holds:
  "sublist (name a) (get_system_prompt a)"
  "sublist (summary a) (get_system_prompt a)"
  "sublist (linkedin_content a) (get_system_prompt a)"
  unfolding get_system_prompt_def
  by (rule sublist_appendI | rule sublist_skip)+

lemma chat_plain:
  assumes "plain_answer (create e (length (requests w)) (completion_request e a (chat_messages a msg (store w h))))"
  shows "chat e a msg h w =
    Some (answer_content (create e (length (requests w)) (completion_request e a (chat_messages a msg (store w h)))),
          (chat_start a msg h w)\<lparr>requests := requests w @ [completion_request e a (chat_messages a msg (store w h))]\<rparr>)"
proof -
  let ?w0 = "chat_start a msg h w"
  from assms have "plain_answer (create e (length (requests ?w0)) (completion_request e a (store ?w0 (next_free w))))"
    by (simp add: chat_start_simps)
  from process_conversation_Return [OF loop_body_plain [OF this]]
  show ?thesis by (simp add: chat_unfold chat_start_simps)
qed

lemma chat_returns_log:
  assumes "chat e a msg h w = Some (r, w')"
  shows "\<exists>rqs. requests w' = requests w @ [completion_request e a (chat_messages a msg (store w h))] @ rqs"
proof -
  let ?w0 = "chat_start a msg h w"
  let ?m = "next_free w"
  from assms have "process_conversation e a ?m ?w0 = Some (r, w')"
    by (simp add: chat_unfold)
  from process_conversation_returns [OF this] obtain n wn
    where p: "loop_passes e a ?m n ?w0 = Some wn" and r: "loop_body e a ?m wn = Return r w'"
    by auto
  from loop_body_frame [of e a ?m wn] r
  have last: "requests w' = requests wn @ [completion_request e a (store wn ?m)]"
    by simp
  show ?thesis
  proof (cases n)
    case 0
    with p have "wn = ?w0" by simp
    with last show ?thesis by (simp add: chat_start_simps)
  next
    case (Suc k)
    with p obtain w1 where c: "loop_body e a ?m ?w0 = Continue w1"
      and q: "loop_passes e a ?m k w1 = Some wn"
      by (auto split: step.splits)
    from loop_body_frame [of e a ?m ?w0] c
    have "requests w1 = requests w @ [completion_request e a (chat_messages a msg (store w h))]"
      by (simp add: chat_start_simps)
    moreover from loop_passes_frame [OF q] obtain rqs where "requests wn = requests w1 @ rqs"
      by blast
    ultimately have "requests w' = requests w @ [completion_request e a (chat_messages a msg (store w h))]
        @ (rqs @ [completion_request e a (store wn ?m)])"
      using last by simp
    then show ?thesis by blast
  qed
qed

lemma example_agent_simps:
  "name example_agent = ''Ankur Warikoo''" "tools example_agent = get_tool_definitions"
  "linkedin_content example_agent = ''Founder and teacher.''" "summary example_agent = ''I teach.''"
  by (simp_all add: example_agent_def AIAgent_init_def py_or_def answering_env_def example_config_def)

lemma example_world_simps:
  "requests example_world = []" "posts example_world = []" "next_free example_world = Suc 0"
  "store example_world 0 = [Role_content ''user'' ''Hi'', Role_content ''assistant'' ''Hello'']"
  by (simp_all add: example_world_def)

lemma example_env_simps:
  "create answering_env k rq = Create_returns [stop_choice ''I am fine.'']"
  "create failing_env k rq = Create_raises (OtherException ''timeout'')"
  "create tool_env k rq = (if k = 0 then Create_returns [tool_choice [question_call]]
                         else Create_returns [stop_choice ''I have noted it.''])"
  "create late_failing_env k rq = (if k = 0 then Create_returns [tool_choice [question_call]]
                         else Create_raises (OtherException ''timeout''))"
  "create broken_env k rq = (if k = 0 then Create_returns [tool_choice [broken_call]]
                         else Create_returns [stop_choice ''I have noted it.''])"
  "create looping_env k rq = Create_returns [tool_choice [question_call]]"
  "openai_model (config answering_env) = ''gpt-4o-mini''"
  "openai_model (config tool_env) = ''gpt-4o-mini''"
  by (simp_all add: answering_env_def failing_env_def tool_env_def late_failing_env_def
      broken_env_def looping_env_def example_config_def)

lemma example_choice_simps:
  "finish_reason (stop_choice s) = ''stop''" "content (message (stop_choice s)) = Some s"
  "finish_reason (tool_choice tcs) = ''tool_calls''" "tool_calls (message (tool_choice tcs)) = Some tcs"
  "content (message (tool_choice tcs)) = None"
  "decodable question_call" "\<not> decodable broken_call"
  "call_id question_call = ''call_1''"
  by (simp_all add: stop_choice_def tool_choice_def decodable_def question_call_def broken_call_def)

text \<open>
  Claim C1. For every history (the list at address \<open>h\<close>) and every message, \<^verbatim>\<open>chat\<close> sends
  nothing before it enters the loop, and the first pass of the loop sends the request whose
  message list is the system turn, then the history, then the user turn with the message. A
  run of \<^verbatim>\<open>chat\<close> that returns has this request first among those it added to the log.
  The content of the system turn is the same for any two agents with the same name, summary
  and profile text, and it is the fixed instructions with the name, the summary and the
  profile text put in at their places.
\<close>

theorem chat_first_request:
  "chat e a msg h w = process_conversation e a (next_free w) (chat_start a msg h w) \<and>
   requests (chat_start a msg h w) = requests w \<and>
   requests (step_world (loop_body e a (next_free w) (chat_start a msg h w))) =
     requests w @
       [\<lparr>req_model = openai_model (config e),
         req_messages =
           [Role_content ''system'' (get_system_prompt a)] @ store w h @ [Role_content ''user'' msg],
         req_tools = tools a\<rparr>] \<and>
   (\<forall>r w'. chat e a msg h w = Some (r, w') \<longrightarrow>
      (\<exists>rqs. requests w' = requests w @
         [\<lparr>req_model = openai_model (config e),
           req_messages =
             [Role_content ''system'' (get_system_prompt a)] @ store w h @ [Role_content ''user'' msg],
           req_tools = tools a\<rparr>] @ rqs)) \<and>
   (\<forall>b. name b = name a \<and> summary b = summary a \<and> linkedin_content b = linkedin_content a \<longrightarrow>
      get_system_prompt b = get_system_prompt a) \<and>
   sublist (name a) (get_system_prompt a) \<and>
   sublist (summary a) (get_system_prompt a) \<and>
   sublist (linkedin_content a) (get_system_prompt a) \<and>
   get_system_prompt a =
     ''You are acting as '' @ name a @ ''. You are answering questions on '' @ name a @ '''s website, ''
     @ ''particularly questions related to '' @ name a @ '''s career, background, skills and experience. ''
     @ ''Your responsibility is to represent '' @ name a @ '' for interactions on the website as faithfully as possible. ''
     @ ''You are given a summary of '' @ name a @ '''s background and LinkedIn profile which you can use to answer questions. ''
     @ ''Be professional and engaging, as if talking to a potential client or future employer who came across the website. ''
     @ ''If you don't know the answer to any question, use your record_unknown_question tool to record the question that you couldn't answer, even if it's about something trivial or unrelated to career. ''
     @ ''If the user is engaging in discussion, try to steer them towards getting in touch via email; ask for their email and record it using your record_user_details tool.''
     @ [CHR 0x0A, CHR 0x0A] @ ''## Summary:'' @ [CHR 0x0A] @ summary a
     @ [CHR 0x0A, CHR 0x0A] @ ''## LinkedIn Profile:'' @ [CHR 0x0A] @ linkedin_content a @ [CHR 0x0A, CHR 0x0A]
     @ ''With this context, please chat with the user, always staying in character as '' @ name a @ ''.''"
proof (intro conjI)
  show "sublist (name a) (get_system_prompt a)" "sublist (summary a) (get_system_prompt a)"
    "sublist (linkedin_content a) (get_system_prompt a)"
    by (rule get_system_prompt_holds)+
  show "get_system_prompt a =
     ''You are acting as '' @ name a @ ''. You are answering questions on '' @ name a @ '''s website, ''
     @ ''particularly questions related to '' @ name a @ '''s career, background, skills and experience. ''
     @ ''Your responsibility is to represent '' @ name a @ '' for interactions on the website as faithfully as possible. ''
     @ ''You are given a summary of '' @ name a @ '''s background and LinkedIn profile which you can use to answer questions. ''
     @ ''Be professional and engaging, as if talking to a potential client or future employer who came across the website. ''
     @ ''If you don't know the answer to any question, use your record_unknown_question tool to record the question that you couldn't answer, even if it's about something trivial or unrelated to career. ''
     @ ''If the user is engaging in discussion, try to steer them towards getting in touch via email; ask for their email and record it using your record_user_details tool.''
     @ [CHR 0x0A, CHR 0x0A] @ ''## Summary:'' @ [CHR 0x0A] @ summary a
     @ [CHR 0x0A, CHR 0x0A] @ ''## LinkedIn Profile:'' @ [CHR 0x0A] @ linkedin_content a @ [CHR 0x0A, CHR 0x0A]
     @ ''With this context, please chat with the user, always staying in character as '' @ name a @ ''.''"
    by (rule get_system_prompt_def)
  show "chat e a msg h w = process_conversation e a (next_free w) (chat_start a msg h w)"
    by (rule chat_unfold)
  show "requests (chat_start a msg h w) = requests w"
    by (rule chat_start_simps)
  show "requests (step_world (loop_body e a (next_free w) (chat_start a msg h w))) =
     requests w @
       [\<lparr>req_model = openai_model (config e),
         req_messages =
           [Role_content ''system'' (get_system_prompt a)] @ store w h @ [Role_content ''user'' msg],
         req_tools = tools a\<rparr>]"
    using loop_body_frame [of e a "next_free w" "chat_start a msg h w"]
    by (simp add: chat_start_simps completion_request_def chat_messages_def)
  show "\<forall>r w'. chat e a msg h w = Some (r, w') \<longrightarrow>
      (\<exists>rqs. requests w' = requests w @
         [\<lparr>req_model = openai_model (config e),
           req_messages =
             [Role_content ''system'' (get_system_prompt a)] @ store w h @ [Role_content ''user'' msg],
           req_tools = tools a\<rparr>] @ rqs)"
  proof (intro allI impI)
    fix r w'
    assume "chat e a msg h w = Some (r, w')"
    from chat_returns_log [OF this]
    show "\<exists>rqs. requests w' = requests w @
         [\<lparr>req_model = openai_model (config e),
           req_messages =
             [Role_content ''system'' (get_system_prompt a)] @ store w h @ [Role_content ''user'' msg],
           req_tools = tools a\<rparr>] @ rqs"
      by (simp add: completion_request_def chat_messages_def)
  qed
  show "\<forall>b. name b = name a \<and> summary b = summary a \<and> linkedin_content b = linkedin_content a \<longrightarrow>
      get_system_prompt b = get_system_prompt a"
    using get_system_prompt_cong by blast
qed

text \<open>
  The theorem at work on an endpoint that answers at once, for a history of two turns.
\<close>

theorem chat_first_request_witness:
  "(\<exists>r w' rqs. chat answering_env example_agent ''How are you?'' 0 example_world = Some (r, w') \<and>
      requests w' =
         [\<lparr>req_model = ''gpt-4o-mini'',
           req_messages =
             [Role_content ''system'' (get_system_prompt example_agent),
              Role_content ''user'' ''Hi'', Role_content ''assistant'' ''Hello'',
              Role_content ''user'' ''How are you?''],
           req_tools = get_tool_definitions\<rparr>] @ rqs) \<and>
   get_system_prompt (example_agent\<lparr>tools := JArr []\<rparr>) = get_system_prompt example_agent \<and>
   sublist ''I teach.'' (get_system_prompt example_agent)"
proof -
  have "plain_answer (create answering_env (length (requests example_world))
     (completion_request answering_env example_agent
        (chat_messages example_agent ''How are you?'' (store example_world 0))))"
    by (simp add: example_env_simps example_choice_simps)
  from chat_plain [OF this] obtain r w'
    where run: "chat answering_env example_agent ''How are you?'' 0 example_world = Some (r, w')"
    by blast
  note inst = chat_first_request [of answering_env example_agent "''How are you?''" 0 example_world]
  note log = inst [THEN conjunct2, THEN conjunct2, THEN conjunct2, THEN conjunct1, rule_format]
  note prompt = inst [THEN conjunct2, THEN conjunct2, THEN conjunct2, THEN conjunct2, THEN conjunct1,
      rule_format]
  note holds = inst [THEN conjunct2, THEN conjunct2, THEN conjunct2, THEN conjunct2, THEN conjunct2,
      THEN conjunct2, THEN conjunct1]
  from log [OF run] obtain rqs where "requests w' = requests example_world @
         [\<lparr>req_model = openai_model (config answering_env),
           req_messages =
             [Role_content ''system'' (get_system_prompt example_agent)] @ store example_world 0
               @ [Role_content ''user'' ''How are you?''],
           req_tools = tools example_agent\<rparr>] @ rqs"
    by blast
  then have "requests w' =
         [\<lparr>req_model = ''gpt-4o-mini'',
           req_messages =
             [Role_content ''system'' (get_system_prompt example_agent),
              Role_content ''user'' ''Hi'', Role_content ''assistant'' ''Hello'',
              Role_content ''user'' ''How are you?''],
           req_tools = get_tool_definitions\<rparr>] @ rqs"
    by (simp add: example_env_simps example_agent_simps example_world_simps)
  with run have 2: "\<exists>r w' rqs. chat answering_env example_agent ''How are you?'' 0 example_world = Some (r, w') \<and>
      requests w' =
         [\<lparr>req_model = ''gpt-4o-mini'',
           req_messages =
             [Role_content ''system'' (get_system_prompt example_agent),
              Role_content ''user'' ''Hi'', Role_content ''assistant'' ''Hello'',
              Role_content ''user'' ''How are you?''],
           req_tools = get_tool_definitions\<rparr>] @ rqs" by blast
  have 3: "get_system_prompt (example_agent\<lparr>tools := JArr []\<rparr>) = get_system_prompt example_agent"
    by (rule prompt) simp
  from holds have 4: "sublist ''I teach.'' (get_system_prompt example_agent)"
    by (simp only: example_agent_simps)
  from 2 3 4 show ?thesis by (intro conjI)
qed

section \<open>The claims about the loop\<close>

lemma chat_start_example:
  "requests (chat_start a msg 0 example_world) = []"
  "next_free (chat_start a msg 0 example_world) = Suc (Suc 0)"
  "store (chat_start a msg 0 example_world) (Suc 0) = chat_messages a msg (store example_world 0)"
  "store (chat_start a msg 0 example_world) 0 = store example_world 0"
  by (simp_all add: chat_start_def new_list_def example_world_def)

text \<open>
  Claim C6. When the first response of the model endpoint has a finish reason other than
  \<^verbatim>\<open>"tool_calls"\<close>, \<^verbatim>\<open>chat\<close> returns the content of that response's message as it is, and
  the run has sent exactly one request to the model endpoint (and none to the notification
  endpoint).
\<close>

theorem chat_plain_answer:
  assumes "create e (length (requests w)) (completion_request e a (chat_messages a msg (store w h)))
             = Create_returns (c # cs)"
    and "finish_reason c \<noteq> ''tool_calls''"
  shows "\<exists>w'. chat e a msg h w = Some (content (message c), w') \<and>
           requests w' = requests w @ [completion_request e a (chat_messages a msg (store w h))] \<and>
           posts w' = posts w"
proof -
  from assms have "plain_answer (create e (length (requests w))
      (completion_request e a (chat_messages a msg (store w h))))"
    by simp
  from chat_plain [OF this] assms(1) show ?thesis
    by (simp add: chat_start_simps)
qed

text \<open>The theorem at work on the endpoint that answers at once.\<close>

theorem chat_plain_answer_witness:
  "create answering_env (length (requests example_world))
     (completion_request answering_env example_agent
        (chat_messages example_agent ''How are you?'' (store example_world 0)))
     = Create_returns [stop_choice ''I am fine.''] \<and>
   finish_reason (stop_choice ''I am fine.'') \<noteq> ''tool_calls'' \<and>
   (\<exists>w'. chat answering_env example_agent ''How are you?'' 0 example_world =
           Some (Some ''I am fine.'', w') \<and>
         requests w' =
           [completion_request answering_env example_agent
              (chat_messages example_agent ''How are you?'' (store example_world 0))])"
proof -
  have 1: "create answering_env (length (requests example_world))
     (completion_request answering_env example_agent
        (chat_messages example_agent ''How are you?'' (store example_world 0)))
     = Create_returns [stop_choice ''I am fine.'']"
    by (simp add: example_env_simps)
  have 2: "finish_reason (stop_choice ''I am fine.'') \<noteq> ''tool_calls''"
    by (simp add: example_choice_simps)
  from chat_plain_answer [OF 1 2]
  have "\<exists>w'. chat answering_env example_agent ''How are you?'' 0 example_world =
           Some (Some ''I am fine.'', w') \<and>
         requests w' =
           [completion_request answering_env example_agent
              (chat_messages example_agent ''How are you?'' (store example_world 0))]"
    by (auto simp add: example_choice_simps example_world_simps)
  with 1 2 show ?thesis by blast
qed

text \<open>
  Claim C5. Whatever the message and the history: if the loop of \<^verbatim>\<open>chat\<close> reaches its pass
  \<open>n\<close> and the interaction with the model endpoint in that pass fails (the client raises, or
  the response has no choice), then \<^verbatim>\<open>chat\<close> returns, after that one request, and what it
  returns is the fixed apology; the failure is a value the caller never sees.
\<close>

theorem chat_apology_on_failure:
  assumes "loop_passes e a (next_free w) n (chat_start a msg h w) = Some wn"
    and "interaction_fails
           (create e (length (requests wn)) (completion_request e a (store wn (next_free w))))"
  shows "chat e a msg h w =
           Some (Some apology,
                 wn\<lparr>requests := requests wn @ [completion_request e a (store wn (next_free w))]\<rparr>) \<and>
         apology = ''I apologize, but I encountered an error processing your request. Please try again.''"
proof -
  from process_conversation_Return [OF loop_body_fails [OF assms(2)]]
    process_conversation_passes [OF assms(1)]
  show ?thesis by (simp add: chat_unfold apology_def)
qed

text \<open>
  The theorem at work: a failure in the first pass, and a failure in the second pass, after
  a tool call was handled.
\<close>

theorem chat_apology_on_failure_witness:
  "chat failing_env example_agent ''How are you?'' 0 example_world =
     Some (Some apology,
           (chat_start example_agent ''How are you?'' 0 example_world)
             \<lparr>requests := [completion_request failing_env example_agent
                  (chat_messages example_agent ''How are you?'' (store example_world 0))]\<rparr>) \<and>
   (\<exists>wn. loop_passes late_failing_env example_agent 1 1
            (chat_start example_agent ''What is X?'' 0 example_world) = Some wn \<and>
         length (requests wn) = 1 \<and>
         chat late_failing_env example_agent ''What is X?'' 0 example_world =
           Some (Some apology,
                 wn\<lparr>requests := requests wn @
                    [completion_request late_failing_env example_agent (store wn 1)]\<rparr>))"
proof -
  let ?w0 = "chat_start example_agent ''How are you?'' 0 example_world"
  have p0: "loop_passes failing_env example_agent (next_free example_world) 0 ?w0 = Some ?w0"
    by simp
  have f0: "interaction_fails (create failing_env (length (requests ?w0))
      (completion_request failing_env example_agent (store ?w0 (next_free example_world))))"
    by (simp add: example_env_simps)
  from chat_apology_on_failure [OF p0 f0]
  have a: "chat failing_env example_agent ''How are you?'' 0 example_world =
     Some (Some apology,
           ?w0\<lparr>requests := [completion_request failing_env example_agent
                  (chat_messages example_agent ''How are you?'' (store example_world 0))]\<rparr>)"
    by (simp add: chat_start_example example_world_simps)
  let ?w1 = "chat_start example_agent ''What is X?'' 0 example_world"
  have "\<forall>i<1. \<forall>rq. requests_tools (create late_failing_env (length (requests ?w1) + i) rq)"
    by (simp add: chat_start_example example_env_simps example_choice_simps)
  from loop_passes_tools [OF this, where a = example_agent and m = 1] obtain wn
    where p1: "loop_passes late_failing_env example_agent 1 1 ?w1 = Some wn"
    by blast
  from loop_passes_frame [OF p1] have len: "length (requests wn) = 1"
    by (auto simp add: chat_start_example)
  have f1: "interaction_fails (create late_failing_env (length (requests wn))
      (completion_request late_failing_env example_agent (store wn (next_free example_world))))"
    by (simp add: len example_env_simps)
  from p1 have p1': "loop_passes late_failing_env example_agent (next_free example_world) 1 ?w1 = Some wn"
    by (simp add: example_world_simps)
  from chat_apology_on_failure [OF p1' f1]
  have "chat late_failing_env example_agent ''What is X?'' 0 example_world =
           Some (Some apology,
                 wn\<lparr>requests := requests wn @
                    [completion_request late_failing_env example_agent (store wn 1)]\<rparr>)"
    by (simp add: example_world_simps)
  with p1 len a show ?thesis by blast
qed





lemma chat_terminates:
  assumes "\<forall>i<n. \<forall>rq. requests_tools (create e (length (requests w) + i) rq)"
    and "\<forall>rq. plain_answer (create e (length (requests w) + n) rq)"
  shows "\<exists>w' rq. chat e a msg h w = Some (answer_content (create e (length (requests w) + n) rq), w') \<and>
           length (requests w') = length (requests w) + n + 1 \<and> last (requests w') = rq"
proof -
  let ?w0 = "chat_start a msg h w"
  let ?m = "next_free w"
  from assms have "\<forall>i<n. \<forall>rq. requests_tools (create e (length (requests ?w0) + i) rq)"
    and "\<forall>rq. plain_answer (create e (length (requests ?w0) + n) rq)"
    by (simp_all add: chat_start_simps)
  from process_conversation_terminates [OF this, of a ?m] obtain wn where
    p: "loop_passes e a ?m n ?w0 = Some wn"
    and r: "process_conversation e a ?m ?w0 =
             Some (answer_content (create e (length (requests ?w0) + n) (completion_request e a (store wn ?m))),
                   wn\<lparr>requests := requests wn @ [completion_request e a (store wn ?m)]\<rparr>)"
    by blast
  from loop_passes_frame [OF p] have len: "length (requests wn) = length (requests w) + n"
    by (auto simp add: chat_start_simps)
  let ?rq = "completion_request e a (store wn ?m)"
  let ?w' = "wn\<lparr>requests := requests wn @ [?rq]\<rparr>"
  from r len have "chat e a msg h w = Some (answer_content (create e (length (requests w) + n) ?rq), ?w') \<and>
           length (requests ?w') = length (requests w) + n + 1 \<and> last (requests ?w') = ?rq"
    by (simp add: chat_unfold chat_start_simps)
  then show ?thesis
    by (intro exI [of _ ?w'] exI [of _ ?rq])
qed




text \<open>
  Claim C10. The caller's history list (at an address \<open>h\<close> in use) holds the same turns at
  the start of every pass of the loop and when \<^verbatim>\<open>chat\<close> returns as it held before the call:
  all the appending is done to the list \<^verbatim>\<open>chat\<close> built, at a fresh address.
\<close>

theorem chat_preserves_history:
  assumes "h < next_free w"
  shows "(\<forall>n wn. loop_passes e a (next_free w) n (chat_start a msg h w) = Some wn \<longrightarrow>
            store wn h = store w h) \<and>
         (\<forall>r w'. chat e a msg h w = Some (r, w') \<longrightarrow> store w' h = store w h)"
proof (intro conjI allI impI)
  fix n wn
  assume "loop_passes e a (next_free w) n (chat_start a msg h w) = Some wn"
  from loop_passes_frame [OF this] assms show "store wn h = store w h"
    by (simp add: chat_start_simps)
next
  fix r w'
  assume "chat e a msg h w = Some (r, w')"
  then have "process_conversation e a (next_free w) (chat_start a msg h w) = Some (r, w')"
    by (simp add: chat_unfold)
  from process_conversation_returns [OF this] obtain n wn where
    p: "loop_passes e a (next_free w) n (chat_start a msg h w) = Some wn"
    and r: "loop_body e a (next_free w) wn = Return r w'"
    by auto
  from loop_passes_frame [OF p] assms have "store wn h = store w h"
    by (simp add: chat_start_simps)
  with loop_body_Return_store [OF r] show "store w' h = store w h"
    by simp
qed

text \<open>The theorem at work on a run that handles a tool call and then returns.\<close>

theorem chat_preserves_history_witness:
  "0 < next_free example_world \<and>
   (\<exists>r w'. chat tool_env example_agent ''What is X?'' 0 example_world = Some (r, w') \<and>
      store w' 0 = [Role_content ''user'' ''Hi'', Role_content ''assistant'' ''Hello''])"
proof -
  have 0: "0 < next_free example_world"
    by (simp add: example_world_simps)
  have "\<forall>i<1. \<forall>rq. requests_tools (create tool_env (length (requests example_world) + i) rq)"
    and "\<forall>rq. plain_answer (create tool_env (length (requests example_world) + 1) rq)"
    by (simp_all add: example_world_simps example_env_simps example_choice_simps)
  from chat_terminates [OF this] obtain r w' where
    run: "chat tool_env example_agent ''What is X?'' 0 example_world = Some (r, w')"
    by blast
  from chat_preserves_history [OF 0, THEN conjunct2, rule_format, OF run]
  have "store w' 0 = [Role_content ''user'' ''Hi'', Role_content ''assistant'' ''Hello'']"
    by (simp add: example_world_simps)
  with run have "\<exists>r w'. chat tool_env example_agent ''What is X?'' 0 example_world = Some (r, w') \<and>
      store w' 0 = [Role_content ''user'' ''Hi'', Role_content ''assistant'' ''Hello'']"
    by (intro exI [of _ r] exI [of _ w'] conjI)
  with 0 show ?thesis by (rule conjI)
qed

section \<open>The claims about the tools\<close>

lemma record_user_details_message:
  "record_user_details e email name_arg notes_arg w =
     (case send_notification e (notification_client e)
             (registration_message
                (case name_arg of None \<Rightarrow> PStr ''Name not provided'' | Some v \<Rightarrow> v) email
                (case notes_arg of None \<Rightarrow> PStr ''not provided'' | Some v \<Rightarrow> v))
             (Some ''User Registration'') w of
        (Inl x, w') \<Rightarrow> (Inl x, w')
      | (Inr sent, w') \<Rightarrow> (Inr (JObj [(''recorded'', JStr ''ok'')]), w'))"
  by (simp add: record_user_details_def send_user_registration_def Let_def)

lemma default_registration_message:
  "registration_message (PStr ''Name not provided'') (PStr ''a@b.com'') (PStr ''not provided'') =
     ''New user registration: Name not provided (a@b.com) - Notes: not provided''"
  by (simp add: registration_message_def)

lemma default_message_encodable:
  "utf8_encodable ''New user registration: Name not provided (a@b.com) - Notes: not provided''"
  by (simp add: utf8_encodable_def)

lemma question_message_encodable:
  assumes "utf8_encodable q"
  shows "utf8_encodable (''Unknown question recorded: '' @ q)"
proof -
  have "\<not> has_surrogate (''Unknown question recorded:'' @ [CHR '' ''])"
    by simp
  from has_surrogate_append [OF this, of q] assms
  show ?thesis
    by (simp add: utf8_encodable_def)
qed

lemma question_message_unencodable:
  assumes "\<not> utf8_encodable q"
  shows "\<not> utf8_encodable (''Unknown question recorded: '' @ q)"
proof -
  have "has_surrogate ys \<Longrightarrow> has_surrogate (c # ys)" for c ys
    by (cases ys) simp_all
  with assms show ?thesis
    by (simp add: utf8_encodable_def)
qed

text \<open>
  A notification of the global client with an ASCII title: what the call does to the world
  and what it returns, by the credentials and the message.
\<close>

lemma notify_unconfigured:
  assumes "\<not> truthy (pushover_token (config e)) \<or> \<not> truthy (pushover_user (config e))"
  shows "send_notification e (notification_client e) msg title w = (Inr True, w)"
  using assms by (intro send_notification_unconfigured) (simp add: client_simps)

lemma notify_unencodable:
  assumes "truthy (pushover_token (config e)) \<and> truthy (pushover_user (config e))"
    and "\<not> (utf8_encodable (the_str (pushover_token (config e))) \<and>
            utf8_encodable (the_str (pushover_user (config e))) \<and> utf8_encodable msg)"
    and "utf8_encodable title"
  shows "send_notification e (notification_client e) msg (Some title) w = (Inl UnicodeEncodeError, w)"
  using assms by (intro send_notification_unencodable) (auto simp add: client_simps)

lemma notify_sent:
  assumes "truthy (pushover_token (config e)) \<and> truthy (pushover_user (config e))"
    and "utf8_encodable (the_str (pushover_token (config e))) \<and>
         utf8_encodable (the_str (pushover_user (config e))) \<and> utf8_encodable msg"
    and "utf8_encodable title"
  shows "send_notification e (notification_client e) msg (Some title) w =
           (case post e (length (posts w)) (notification_request (notification_client e) msg (Some title)) of
              Post_raises x \<Rightarrow> if is_RequestException x then Inr False else Inl x
            | Post_response status \<Rightarrow> Inr (\<not> (400 \<le> status \<and> status < 600)),
            w\<lparr>posts := posts w @ [notification_request (notification_client e) msg (Some title)]\<rparr>)"
  using assms by (intro send_notification_sent) (auto simp add: client_simps)

lemma title_encodable:
  "utf8_encodable ''User Registration''" "utf8_encodable ''Unknown Question''"
  by (simp_all add: utf8_encodable_def)

text \<open>
  A tool that returns the acknowledgement whenever the sender returns and lets the sender's
  exception pass: what it does for a message and an ASCII title that is not empty.
\<close>

lemma acknowledged_unconfigured:
  assumes "\<not> truthy (pushover_token (config e)) \<or> \<not> truthy (pushover_user (config e))"
  shows "(case send_notification e (notification_client e) msg title w of
            (Inl x, w') \<Rightarrow> (Inl x, w')
          | (Inr sent, w') \<Rightarrow> (Inr (JObj [(''recorded'', JStr ''ok'')]), w')) =
         (Inr (JObj [(''recorded'', JStr ''ok'')]), w)"
  by (simp add: notify_unconfigured [OF assms])

lemma acknowledged_unencodable:
  assumes "truthy (pushover_token (config e)) \<and> truthy (pushover_user (config e))"
    and "\<not> (utf8_encodable (the_str (pushover_token (config e))) \<and>
            utf8_encodable (the_str (pushover_user (config e))) \<and> utf8_encodable msg)"
    and "utf8_encodable title"
  shows "(case send_notification e (notification_client e) msg (Some title) w of
            (Inl x, w') \<Rightarrow> (Inl x, w')
          | (Inr sent, w') \<Rightarrow> (Inr (JObj [(''recorded'', JStr ''ok'')]), w')) =
         (Inl UnicodeEncodeError, w)"
  by (simp add: notify_unencodable [OF assms])

lemma acknowledged_sent:
  assumes "truthy (pushover_token (config e)) \<and> truthy (pushover_user (config e))"
    and "utf8_encodable (the_str (pushover_token (config e))) \<and>
         utf8_encodable (the_str (pushover_user (config e))) \<and> utf8_encodable msg"
    and "utf8_encodable title" and "title \<noteq> []"
    and r: "r = (case send_notification e (notification_client e) msg (Some title) w of
            (Inl x, w') \<Rightarrow> (Inl x, w')
          | (Inr sent, w') \<Rightarrow> (Inr (JObj [(''recorded'', JStr ''ok'')]), w'))"
  shows "\<exists>rq. posts (snd r) = posts w @ [rq] \<and>
           map_of (data rq) ''message'' = Some msg \<and>
           map_of (data rq) ''title'' = Some title \<and>
           (post_handled (post e (length (posts w)) rq) \<longrightarrow>
              fst r = Inr (JObj [(''recorded'', JStr ''ok'')]))"
proof -
  let ?rq = "notification_request (notification_client e) msg (Some title)"
  have "posts (snd r) = posts w @ [?rq] \<and>
        (post_handled (post e (length (posts w)) ?rq) \<longrightarrow>
           fst r = Inr (JObj [(''recorded'', JStr ''ok'')]))"
    unfolding r notify_sent [OF assms(1-3)]
    by (cases "post e (length (posts w)) ?rq") simp_all
  moreover have "map_of (data ?rq) ''message'' = Some msg \<and> map_of (data ?rq) ''title'' = Some title"
    using assms(4) by (simp add: notification_request_fields)
  ultimately show ?thesis
    by (intro exI [of _ ?rq]) simp
qed

text \<open>
  Claim C3, as the code has it. \<^verbatim>\<open>record_user_details\<close> called with the email
  \<^verbatim>\<open>a@b.com\<close> and neither name nor notes sends the notification titled "User Registration"
  whose message holds the email and "Name not provided" and ends in " - Notes: not provided":
  the parameter \<^verbatim>\<open>notes\<close> defaults to the text "not provided", which is not empty. The
  call returns \<^verbatim>\<open>{"recorded": "ok"}\<close> whenever the sender returns, and what the sender
  raises leaves the call. Without credentials nothing is sent and the call returns
  \<^verbatim>\<open>{"recorded": "ok"}\<close>. With credentials one of which cannot be encoded as UTF-8,
  \<^verbatim>\<open>UnicodeEncodeError\<close> leaves the call and nothing is sent. With credentials that can be
  encoded, that message goes out in one request, and the call returns
  \<^verbatim>\<open>{"recorded": "ok"}\<close> when the request ends in a response or in a
  \<^verbatim>\<open>RequestException\<close>. For a name and notes that are passed, the notes part is appended
  exactly when the notes are not the empty string.
\<close>

theorem record_user_details_notification:
  "record_user_details e (PStr ''a@b.com'') None None w =
     (case send_notification e (notification_client e)
             ''New user registration: Name not provided (a@b.com) - Notes: not provided''
             (Some ''User Registration'') w of
        (Inl x, w') \<Rightarrow> (Inl x, w')
      | (Inr sent, w') \<Rightarrow> (Inr (JObj [(''recorded'', JStr ''ok'')]), w')) \<and>
   sublist ''a@b.com'' ''New user registration: Name not provided (a@b.com) - Notes: not provided'' \<and>
   sublist ''Name not provided''
     ''New user registration: Name not provided (a@b.com) - Notes: not provided'' \<and>
   suffix '' - Notes: not provided''
     ''New user registration: Name not provided (a@b.com) - Notes: not provided'' \<and>
   (\<not> truthy (pushover_token (config e)) \<or> \<not> truthy (pushover_user (config e)) \<longrightarrow>
      record_user_details e (PStr ''a@b.com'') None None w =
        (Inr (JObj [(''recorded'', JStr ''ok'')]), w)) \<and>
   (truthy (pushover_token (config e)) \<and> truthy (pushover_user (config e)) \<and>
    \<not> (utf8_encodable (the_str (pushover_token (config e))) \<and>
       utf8_encodable (the_str (pushover_user (config e)))) \<longrightarrow>
      record_user_details e (PStr ''a@b.com'') None None w = (Inl UnicodeEncodeError, w)) \<and>
   (truthy (pushover_token (config e)) \<and> truthy (pushover_user (config e)) \<and>
    utf8_encodable (the_str (pushover_token (config e))) \<and>
    utf8_encodable (the_str (pushover_user (config e))) \<longrightarrow>
      (\<exists>rq. posts (snd (record_user_details e (PStr ''a@b.com'') None None w)) = posts w @ [rq] \<and>
         map_of (data rq) ''message'' =
           Some ''New user registration: Name not provided (a@b.com) - Notes: not provided'' \<and>
         map_of (data rq) ''title'' = Some ''User Registration'' \<and>
         (post_handled (post e (length (posts w)) rq) \<longrightarrow>
            fst (record_user_details e (PStr ''a@b.com'') None None w) =
              Inr (JObj [(''recorded'', JStr ''ok'')])))) \<and>
   (\<forall>email nm s. record_user_details e email (Some nm) (Some (PStr s)) w =
      (case send_notification e (notification_client e)
              (''New user registration: '' @ py_str nm @ '' ('' @ py_str email @ '')'' @
                 (if s = [] then [] else '' - Notes: '' @ s))
              (Some ''User Registration'') w of
         (Inl x, w') \<Rightarrow> (Inl x, w')
       | (Inr sent, w') \<Rightarrow> (Inr (JObj [(''recorded'', JStr ''ok'')]), w')))"
proof (intro conjI allI impI)
  show run: "record_user_details e (PStr ''a@b.com'') None None w =
     (case send_notification e (notification_client e)
             ''New user registration: Name not provided (a@b.com) - Notes: not provided''
             (Some ''User Registration'') w of
        (Inl x, w') \<Rightarrow> (Inl x, w')
      | (Inr sent, w') \<Rightarrow> (Inr (JObj [(''recorded'', JStr ''ok'')]), w'))"
    by (simp add: record_user_details_message default_registration_message)
  have "''New user registration: Name not provided (a@b.com) - Notes: not provided'' =
     ''New user registration: Name not provided ('' @ ''a@b.com'' @ '') - Notes: not provided''"
    by simp
  then show "sublist ''a@b.com'' ''New user registration: Name not provided (a@b.com) - Notes: not provided''"
    by (simp only: sublist_appendI)
  have "''New user registration: Name not provided (a@b.com) - Notes: not provided'' =
     ''New user registration: '' @ ''Name not provided'' @ '' (a@b.com) - Notes: not provided''"
    by simp
  then show "sublist ''Name not provided''
     ''New user registration: Name not provided (a@b.com) - Notes: not provided''"
    by (simp only: sublist_appendI)
  have "''New user registration: Name not provided (a@b.com) - Notes: not provided'' =
     ''New user registration: Name not provided (a@b.com)'' @ '' - Notes: not provided''"
    by simp
  then show "suffix '' - Notes: not provided''
     ''New user registration: Name not provided (a@b.com) - Notes: not provided''"
    by (simp only: suffixI)
  show "record_user_details e (PStr ''a@b.com'') None None w =
        (Inr (JObj [(''recorded'', JStr ''ok'')]), w)"
    if "\<not> truthy (pushover_token (config e)) \<or> \<not> truthy (pushover_user (config e))"
    unfolding run by (rule acknowledged_unconfigured [OF that])
  show "record_user_details e (PStr ''a@b.com'') None None w = (Inl UnicodeEncodeError, w)"
    if "truthy (pushover_token (config e)) \<and> truthy (pushover_user (config e)) \<and>
      \<not> (utf8_encodable (the_str (pushover_token (config e))) \<and>
         utf8_encodable (the_str (pushover_user (config e))))"
    unfolding run using that
    by (intro acknowledged_unencodable) (auto simp add: title_encodable)
  show "\<exists>rq. posts (snd (record_user_details e (PStr ''a@b.com'') None None w)) = posts w @ [rq] \<and>
         map_of (data rq) ''message'' =
           Some ''New user registration: Name not provided (a@b.com) - Notes: not provided'' \<and>
         map_of (data rq) ''title'' = Some ''User Registration'' \<and>
         (post_handled (post e (length (posts w)) rq) \<longrightarrow>
            fst (record_user_details e (PStr ''a@b.com'') None None w) =
              Inr (JObj [(''recorded'', JStr ''ok'')]))"
    if "truthy (pushover_token (config e)) \<and> truthy (pushover_user (config e)) \<and>
      utf8_encodable (the_str (pushover_token (config e))) \<and>
      utf8_encodable (the_str (pushover_user (config e)))"
    using that
    by (intro acknowledged_sent [OF _ _ _ _ run])
       (simp_all add: title_encodable default_message_encodable)
  show "record_user_details e email (Some nm) (Some (PStr s)) w =
      (case send_notification e (notification_client e)
              (''New user registration: '' @ py_str nm @ '' ('' @ py_str email @ '')'' @
                 (if s = [] then [] else '' - Notes: '' @ s))
              (Some ''User Registration'') w of
         (Inl x, w') \<Rightarrow> (Inl x, w')
       | (Inr sent, w') \<Rightarrow> (Inr (JObj [(''recorded'', JStr ''ok'')]), w'))" for email nm s
    by (simp add: record_user_details_message registration_message_def)
qed

text \<open>
  The theorem at work: empty notes leave the message without a notes part; the call with the
  defaults posts the message with it; without credentials nothing is posted; a token that
  holds a lone surrogate makes the call raise.
\<close>

lemma example_post:
  "post answering_env k rq = Post_response 200"
  by (simp add: answering_env_def)

lemma garbled_configs:
  "truthy (pushover_token (config garbled_env))" "truthy (pushover_user (config garbled_env))"
  "\<not> utf8_encodable (the_str (pushover_token (config garbled_env)))"
  by (simp_all add: garbled_env_def example_config_def answering_env_def surrogate_text_def
      utf8_encodable_def)

lemma send_notification_example:
  assumes "utf8_encodable msg" and "utf8_encodable (c # cs)"
  shows "send_notification answering_env (notification_client answering_env) msg (Some (c # cs))
           example_world =
     (Inr True, example_world\<lparr>posts :=
        [\<lparr>url = ''https://api.pushover.net/1/messages.json'',
          data = [(''token'', ''app-token''), (''user'', ''user-key''), (''message'', msg),
                  (''title'', c # cs)],
          timeout = 10\<rparr>]\<rparr>)"
proof -
  have "notification_request (notification_client answering_env) msg (Some (c # cs)) =
        \<lparr>url = ''https://api.pushover.net/1/messages.json'',
          data = [(''token'', ''app-token''), (''user'', ''user-key''), (''message'', msg),
                  (''title'', c # cs)],
          timeout = 10\<rparr>"
    by (simp add: notification_request_def form_data_def Let_def client_simps example_configs)
  moreover have "send_notification answering_env (notification_client answering_env) msg (Some (c # cs))
           example_world =
           (case post answering_env (length (posts example_world))
                   (notification_request (notification_client answering_env) msg (Some (c # cs))) of
              Post_raises x \<Rightarrow> if is_RequestException x then Inr False else Inl x
            | Post_response status \<Rightarrow> Inr (\<not> (400 \<le> status \<and> status < 600)),
            example_world\<lparr>posts := posts example_world @
               [notification_request (notification_client answering_env) msg (Some (c # cs))]\<rparr>)"
    using assms
    by (intro notify_sent) (simp_all add: example_configs example_credentials_encodable)
  ultimately show ?thesis
    by (simp add: example_post example_world_simps)
qed

lemma short_message_encodable:
  "utf8_encodable ''New user registration: Bob (a@b.com)''"
  "utf8_encodable ''Unknown question recorded: What is X?''"
  by (simp_all add: utf8_encodable_def)

theorem record_user_details_notification_witness:
  "record_user_details answering_env (PStr ''a@b.com'') (Some (PStr ''Bob'')) (Some (PStr []))
          example_world =
     (Inr (JObj [(''recorded'', JStr ''ok'')]),
      example_world\<lparr>posts :=
        [\<lparr>url = ''https://api.pushover.net/1/messages.json'',
          data = [(''token'', ''app-token''), (''user'', ''user-key''),
                  (''message'', ''New user registration: Bob (a@b.com)''),
                  (''title'', ''User Registration'')],
          timeout = 10\<rparr>]\<rparr>) \<and>
   record_user_details silent_env (PStr ''a@b.com'') None None example_world =
     (Inr (JObj [(''recorded'', JStr ''ok'')]), example_world) \<and>
   record_user_details garbled_env (PStr ''a@b.com'') None None example_world =
     (Inl UnicodeEncodeError, example_world) \<and>
   (\<exists>rq. posts (snd (record_user_details answering_env (PStr ''a@b.com'') None None example_world))
           = [rq] \<and>
         map_of (data rq) ''message'' =
           Some ''New user registration: Name not provided (a@b.com) - Notes: not provided'' \<and>
         fst (record_user_details answering_env (PStr ''a@b.com'') None None example_world) =
           Inr (JObj [(''recorded'', JStr ''ok'')]))"
proof -
  note inst = record_user_details_notification [of answering_env example_world]
  note general = inst [THEN conjunct2, THEN conjunct2, THEN conjunct2, THEN conjunct2,
      THEN conjunct2, THEN conjunct2, THEN conjunct2, rule_format]
  note posted = inst [THEN conjunct2, THEN conjunct2, THEN conjunct2, THEN conjunct2,
      THEN conjunct2, THEN conjunct2, THEN conjunct1, THEN mp]
  note silent = record_user_details_notification [of silent_env example_world,
      THEN conjunct2, THEN conjunct2, THEN conjunct2, THEN conjunct2, THEN conjunct1, THEN mp]
  note garbled = record_user_details_notification [of garbled_env example_world,
      THEN conjunct2, THEN conjunct2, THEN conjunct2, THEN conjunct2, THEN conjunct2,
      THEN conjunct1, THEN mp]
  have "send_notification answering_env (notification_client answering_env)
          ''New user registration: Bob (a@b.com)'' (Some ''User Registration'') example_world =
     (Inr True, example_world\<lparr>posts :=
        [\<lparr>url = ''https://api.pushover.net/1/messages.json'',
          data = [(''token'', ''app-token''), (''user'', ''user-key''),
                  (''message'', ''New user registration: Bob (a@b.com)''),
                  (''title'', ''User Registration'')],
          timeout = 10\<rparr>]\<rparr>)"
    by (rule send_notification_example) (simp_all add: short_message_encodable title_encodable)
  with general [of "PStr ''a@b.com''" "PStr ''Bob''" "[]"]
  have a: "record_user_details answering_env (PStr ''a@b.com'') (Some (PStr ''Bob'')) (Some (PStr []))
          example_world =
     (Inr (JObj [(''recorded'', JStr ''ok'')]),
      example_world\<lparr>posts :=
        [\<lparr>url = ''https://api.pushover.net/1/messages.json'',
          data = [(''token'', ''app-token''), (''user'', ''user-key''),
                  (''message'', ''New user registration: Bob (a@b.com)''),
                  (''title'', ''User Registration'')],
          timeout = 10\<rparr>]\<rparr>)"
    by simp
  have b: "record_user_details silent_env (PStr ''a@b.com'') None None example_world =
     (Inr (JObj [(''recorded'', JStr ''ok'')]), example_world)"
    by (rule silent) (simp add: example_configs)
  have c: "record_user_details garbled_env (PStr ''a@b.com'') None None example_world =
     (Inl UnicodeEncodeError, example_world)"
    by (rule garbled) (simp add: garbled_configs)
  have "\<exists>rq. posts (snd (record_user_details answering_env (PStr ''a@b.com'') None None example_world))
           = posts example_world @ [rq] \<and>
         map_of (data rq) ''message'' =
           Some ''New user registration: Name not provided (a@b.com) - Notes: not provided'' \<and>
         map_of (data rq) ''title'' = Some ''User Registration'' \<and>
         (post_handled (post answering_env (length (posts example_world)) rq) \<longrightarrow>
            fst (record_user_details answering_env (PStr ''a@b.com'') None None example_world) =
              Inr (JObj [(''recorded'', JStr ''ok'')]))"
    by (rule posted) (simp add: example_configs example_credentials_encodable)
  then obtain rq where rq:
    "posts (snd (record_user_details answering_env (PStr ''a@b.com'') None None example_world))
           = posts example_world @ [rq] \<and>
         map_of (data rq) ''message'' =
           Some ''New user registration: Name not provided (a@b.com) - Notes: not provided'' \<and>
         map_of (data rq) ''title'' = Some ''User Registration'' \<and>
         (post_handled (post answering_env (length (posts example_world)) rq) \<longrightarrow>
            fst (record_user_details answering_env (PStr ''a@b.com'') None None example_world) =
              Inr (JObj [(''recorded'', JStr ''ok'')]))" ..
  then have d: "\<exists>rq. posts (snd (record_user_details answering_env (PStr ''a@b.com'') None None example_world))
           = [rq] \<and>
         map_of (data rq) ''message'' =
           Some ''New user registration: Name not provided (a@b.com) - Notes: not provided'' \<and>
         fst (record_user_details answering_env (PStr ''a@b.com'') None None example_world) =
           Inr (JObj [(''recorded'', JStr ''ok'')])"
    by (intro exI [of _ rq]) (simp add: example_world_simps example_post)
  show ?thesis
    apply (rule conjI)
     apply (rule a)
    apply (rule conjI)
     apply (rule b)
    apply (rule conjI)
     apply (rule c)
    apply (rule d)
    done
qed

text \<open>
  Claim C3 as the specification words it fails: the message of the notification sent for
  \<^verbatim>\<open>record_user_details(email="a@b.com")\<close> does carry "Notes:".
\<close>

theorem record_user_details_notes_counterexample:
  "record_user_details answering_env (PStr ''a@b.com'') None None example_world =
     (Inr (JObj [(''recorded'', JStr ''ok'')]),
      example_world\<lparr>posts :=
        [\<lparr>url = ''https://api.pushover.net/1/messages.json'',
          data = [(''token'', ''app-token''), (''user'', ''user-key''),
                  (''message'',
                   ''New user registration: Name not provided (a@b.com) - Notes: not provided''),
                  (''title'', ''User Registration'')],
          timeout = 10\<rparr>]\<rparr>) \<and>
   sublist ''Notes:'' ''New user registration: Name not provided (a@b.com) - Notes: not provided''"
proof -
  have "''New user registration: Name not provided (a@b.com) - Notes: not provided'' =
     ''New user registration: Name not provided (a@b.com) - '' @ ''Notes:'' @ '' not provided''"
    by simp
  then have 1: "sublist ''Notes:'' ''New user registration: Name not provided (a@b.com) - Notes: not provided''"
    by (simp only: sublist_appendI)
  have "send_notification answering_env (notification_client answering_env)
          ''New user registration: Name not provided (a@b.com) - Notes: not provided''
          (Some ''User Registration'') example_world =
     (Inr True, example_world\<lparr>posts :=
        [\<lparr>url = ''https://api.pushover.net/1/messages.json'',
          data = [(''token'', ''app-token''), (''user'', ''user-key''),
                  (''message'',
                   ''New user registration: Name not provided (a@b.com) - Notes: not provided''),
                  (''title'', ''User Registration'')],
          timeout = 10\<rparr>]\<rparr>)"
    by (rule send_notification_example) (simp_all add: default_message_encodable title_encodable)
  then have "record_user_details answering_env (PStr ''a@b.com'') None None example_world =
     (Inr (JObj [(''recorded'', JStr ''ok'')]),
      example_world\<lparr>posts :=
        [\<lparr>url = ''https://api.pushover.net/1/messages.json'',
          data = [(''token'', ''app-token''), (''user'', ''user-key''),
                  (''message'',
                   ''New user registration: Name not provided (a@b.com) - Notes: not provided''),
                  (''title'', ''User Registration'')],
          timeout = 10\<rparr>]\<rparr>)"
    by (simp add: record_user_details_message default_registration_message)
  then show ?thesis using 1 by (rule conjI)
qed

text \<open>
  Claim C9, as the code has it. For every question text, \<^verbatim>\<open>record_unknown_question\<close> sends
  the notification titled "Unknown Question" whose message is "Unknown question recorded: "
  followed by the question, so it contains the question word for word. The call returns
  \<^verbatim>\<open>{"recorded": "ok"}\<close> whenever the sender returns, and what the sender raises leaves the
  call. Without credentials nothing is sent and the call returns \<^verbatim>\<open>{"recorded": "ok"}\<close>.
  With credentials, when the question or a credential cannot be encoded as UTF-8 (it holds a
  lone surrogate), \<^verbatim>\<open>UnicodeEncodeError\<close> leaves the call and nothing is sent; when they
  can, that message goes out in one request, and the call returns \<^verbatim>\<open>{"recorded": "ok"}\<close>
  when the request ends in a response or in a \<^verbatim>\<open>RequestException\<close>.
\<close>

theorem record_unknown_question_notification:
  "record_unknown_question e (PStr q) w =
     (case send_notification e (notification_client e) (''Unknown question recorded: '' @ q)
             (Some ''Unknown Question'') w of
        (Inl x, w') \<Rightarrow> (Inl x, w')
      | (Inr sent, w') \<Rightarrow> (Inr (JObj [(''recorded'', JStr ''ok'')]), w')) \<and>
   sublist q (''Unknown question recorded: '' @ q) \<and>
   (\<not> truthy (pushover_token (config e)) \<or> \<not> truthy (pushover_user (config e)) \<longrightarrow>
      record_unknown_question e (PStr q) w = (Inr (JObj [(''recorded'', JStr ''ok'')]), w)) \<and>
   (truthy (pushover_token (config e)) \<and> truthy (pushover_user (config e)) \<and>
    \<not> (utf8_encodable (the_str (pushover_token (config e))) \<and>
       utf8_encodable (the_str (pushover_user (config e))) \<and> utf8_encodable q) \<longrightarrow>
      record_unknown_question e (PStr q) w = (Inl UnicodeEncodeError, w)) \<and>
   (truthy (pushover_token (config e)) \<and> truthy (pushover_user (config e)) \<and>
    utf8_encodable (the_str (pushover_token (config e))) \<and>
    utf8_encodable (the_str (pushover_user (config e))) \<and> utf8_encodable q \<longrightarrow>
      (\<exists>rq. posts (snd (record_unknown_question e (PStr q) w)) = posts w @ [rq] \<and>
         map_of (data rq) ''message'' = Some (''Unknown question recorded: '' @ q) \<and>
         map_of (data rq) ''title'' = Some ''Unknown Question'' \<and>
         (post_handled (post e (length (posts w)) rq) \<longrightarrow>
            fst (record_unknown_question e (PStr q) w) = Inr (JObj [(''recorded'', JStr ''ok'')]))))"
proof (intro conjI impI)
  show run: "record_unknown_question e (PStr q) w =
     (case send_notification e (notification_client e) (''Unknown question recorded: '' @ q)
             (Some ''Unknown Question'') w of
        (Inl x, w') \<Rightarrow> (Inl x, w')
      | (Inr sent, w') \<Rightarrow> (Inr (JObj [(''recorded'', JStr ''ok'')]), w'))"
    by (simp add: record_unknown_question_def send_unknown_question_def unknown_question_message_def)
  have "sublist q (''Unknown question recorded: '' @ q @ [])"
    by (rule sublist_appendI)
  then show "sublist q (''Unknown question recorded: '' @ q)"
    by simp
  show "record_unknown_question e (PStr q) w = (Inr (JObj [(''recorded'', JStr ''ok'')]), w)"
    if "\<not> truthy (pushover_token (config e)) \<or> \<not> truthy (pushover_user (config e))"
    unfolding run by (rule acknowledged_unconfigured [OF that])
  show "record_unknown_question e (PStr q) w = (Inl UnicodeEncodeError, w)"
    if "truthy (pushover_token (config e)) \<and> truthy (pushover_user (config e)) \<and>
      \<not> (utf8_encodable (the_str (pushover_token (config e))) \<and>
         utf8_encodable (the_str (pushover_user (config e))) \<and> utf8_encodable q)"
  proof -
    from that have "\<not> (utf8_encodable (the_str (pushover_token (config e))) \<and>
         utf8_encodable (the_str (pushover_user (config e))) \<and>
         utf8_encodable (''Unknown question recorded: '' @ q))"
      using question_message_unencodable [of q] by auto
    with that show ?thesis
      unfolding run by (intro acknowledged_unencodable) (simp_all add: title_encodable)
  qed
  show "\<exists>rq. posts (snd (record_unknown_question e (PStr q) w)) = posts w @ [rq] \<and>
         map_of (data rq) ''message'' = Some (''Unknown question recorded: '' @ q) \<and>
         map_of (data rq) ''title'' = Some ''Unknown Question'' \<and>
         (post_handled (post e (length (posts w)) rq) \<longrightarrow>
            fst (record_unknown_question e (PStr q) w) = Inr (JObj [(''recorded'', JStr ''ok'')]))"
    if "truthy (pushover_token (config e)) \<and> truthy (pushover_user (config e)) \<and>
      utf8_encodable (the_str (pushover_token (config e))) \<and>
      utf8_encodable (the_str (pushover_user (config e))) \<and> utf8_encodable q"
  proof -
    from that have "utf8_encodable (''Unknown question recorded: '' @ q)"
      by (intro question_message_encodable) simp
    with that show ?thesis
      by (intro acknowledged_sent [OF _ _ _ _ run]) (simp_all add: title_encodable)
  qed
qed

text \<open>
  The theorem at work without credentials (nothing is posted), with them, and on a question
  that holds a lone surrogate.
\<close>

theorem record_unknown_question_notification_witness:
  "record_unknown_question silent_env (PStr ''What is X?'') example_world =
     (Inr (JObj [(''recorded'', JStr ''ok'')]), example_world) \<and>
   record_unknown_question answering_env (PStr surrogate_text) example_world =
     (Inl UnicodeEncodeError, example_world) \<and>
   (\<exists>rq. posts (snd (record_unknown_question answering_env (PStr ''What is X?'') example_world)) = [rq] \<and>
         map_of (data rq) ''message'' = Some ''Unknown question recorded: What is X?'' \<and>
         fst (record_unknown_question answering_env (PStr ''What is X?'') example_world) =
           Inr (JObj [(''recorded'', JStr ''ok'')]))"
proof -
  note silent = record_unknown_question_notification [of silent_env "''What is X?''" example_world,
      THEN conjunct2, THEN conjunct2, THEN conjunct1, THEN mp]
  note raised = record_unknown_question_notification [of answering_env surrogate_text example_world,
      THEN conjunct2, THEN conjunct2, THEN conjunct2, THEN conjunct1, THEN mp]
  note posted = record_unknown_question_notification [of answering_env "''What is X?''" example_world,
      THEN conjunct2, THEN conjunct2, THEN conjunct2, THEN conjunct2, THEN mp]
  have a: "record_unknown_question silent_env (PStr ''What is X?'') example_world =
     (Inr (JObj [(''recorded'', JStr ''ok'')]), example_world)"
    by (rule silent) (simp add: example_configs)
  have b: "record_unknown_question answering_env (PStr surrogate_text) example_world =
     (Inl UnicodeEncodeError, example_world)"
    by (rule raised) (simp add: example_configs example_credentials_encodable)
  have "utf8_encodable ''What is X?''"
    by (simp add: utf8_encodable_def)
  then have "\<exists>rq. posts (snd (record_unknown_question answering_env (PStr ''What is X?'') example_world))
         = posts example_world @ [rq] \<and>
         map_of (data rq) ''message'' = Some (''Unknown question recorded: '' @ ''What is X?'') \<and>
         map_of (data rq) ''title'' = Some ''Unknown Question'' \<and>
         (post_handled (post answering_env (length (posts example_world)) rq) \<longrightarrow>
            fst (record_unknown_question answering_env (PStr ''What is X?'') example_world) =
              Inr (JObj [(''recorded'', JStr ''ok'')]))"
    by (intro posted) (simp add: example_configs example_credentials_encodable)
  then obtain rq where
    "posts (snd (record_unknown_question answering_env (PStr ''What is X?'') example_world))
         = posts example_world @ [rq] \<and>
         map_of (data rq) ''message'' = Some (''Unknown question recorded: '' @ ''What is X?'') \<and>
         map_of (data rq) ''title'' = Some ''Unknown Question'' \<and>
         (post_handled (post answering_env (length (posts example_world)) rq) \<longrightarrow>
            fst (record_unknown_question answering_env (PStr ''What is X?'') example_world) =
              Inr (JObj [(''recorded'', JStr ''ok'')]))" ..
  then have c: "\<exists>rq. posts (snd (record_unknown_question answering_env (PStr ''What is X?'') example_world)) = [rq] \<and>
         map_of (data rq) ''message'' = Some ''Unknown question recorded: What is X?'' \<and>
         fst (record_unknown_question answering_env (PStr ''What is X?'') example_world) =
           Inr (JObj [(''recorded'', JStr ''ok'')])"
    by (intro exI [of _ rq]) (simp add: example_world_simps example_post)
  show ?thesis
    apply (rule conjI)
     apply (rule a)
    apply (rule conjI)
     apply (rule b)
    apply (rule c)
    done
qed

text \<open>
  Claim C9 as the specification words it fails: with credentials set, the question that is
  the one lone surrogate U+D83D (the argument text \<^verbatim>\<open>{"question": "\ud83d"}\<close> decodes to
  it) makes \<^verbatim>\<open>requests.post\<close> raise \<^verbatim>\<open>UnicodeEncodeError\<close> while it encodes the form;
  the sender catches only \<^verbatim>\<open>RequestException\<close>, so the exception leaves
  \<^verbatim>\<open>record_unknown_question\<close>, which returns nothing, and no request has gone out.
\<close>

theorem record_unknown_question_surrogate_counterexample:
  "truthy (pushover_token (config answering_env)) \<and>
   truthy (pushover_user (config answering_env)) \<and>
   surrogate_text = [CHR 0xED, CHR 0xA0, CHR 0xBD] \<and>
   record_unknown_question answering_env (PStr surrogate_text) example_world =
     (Inl UnicodeEncodeError, example_world)"
proof -
  have "\<not> utf8_encodable (''Unknown question recorded: '' @ surrogate_text)"
    by (rule question_message_unencodable) (simp add: example_credentials_encodable)
  then have "send_notification answering_env (notification_client answering_env)
      (''Unknown question recorded: '' @ surrogate_text) (Some ''Unknown Question'') example_world =
      (Inl UnicodeEncodeError, example_world)"
    by (intro notify_unencodable) (simp_all add: example_configs title_encodable)
  then have "record_unknown_question answering_env (PStr surrogate_text) example_world =
     (Inl UnicodeEncodeError, example_world)"
    by (simp add: record_unknown_question_def send_unknown_question_def
        unknown_question_message_def)
  then show ?thesis
    by (simp add: example_configs surrogate_text_def)
qed





end
